theory Spec2Isabelle
  imports Complex_Main "HOL-Library.List_Lexorder" "HOL-Library.Char_ord"
begin

section \<open>Tabular data\<close>

text \<open>
  The script \<^verbatim>\<open>simple_app.py\<close> works on pandas dataframes. A dataframe is modelled as
  the list of its labelled columns, in their order. A column has one of three dtypes:
  \<^item> \<open>NumCol\<close>: a numeric column (float64 or an integer dtype); a missing entry (NaN)
    is \<open>None\<close>. An entry is the rational number that the float or the integer is; the
    model does no arithmetic on entries.
  \<^item> \<open>ObjCol\<close>: an object column of strings; a missing entry (None/NaN) is \<open>None\<close>.
  \<^item> \<open>DatetimeCol\<close>: a datetime64[ns] column without time zone, each entry the number
    of nanoseconds since 1970-01-01T00:00; a missing entry (NaT) is \<open>None\<close>.

  The model reads the first column that carries a label; frames with a repeated label
  are outside the model. A frame with row labels and no column is not told apart from
  \<^verbatim>\<open>pd.DataFrame()\<close>: both are empty for this script.
\<close>

datatype cell = Num rat | Str string | Time int

datatype column =
    NumCol "rat option list"
  | ObjCol "string option list"
  | DatetimeCol "int option list"

type_synonym dataframe = "(string \<times> column) list"

fun cells :: "column \<Rightarrow> cell option list" where
  "cells (NumCol xs) = map (map_option Num) xs"
| "cells (ObjCol xs) = map (map_option Str) xs"
| "cells (DatetimeCol xs) = map (map_option Time) xs"

definition size_col :: "column \<Rightarrow> nat" where
  "size_col c = length (cells c)"

text \<open>\<^verbatim>\<open>len(df)\<close>, \<^verbatim>\<open>len(df.columns)\<close> and \<^verbatim>\<open>df.empty\<close>.\<close>

definition nrows :: "dataframe \<Rightarrow> nat" where
  "nrows d = (case d of [] \<Rightarrow> 0 | (n, c) # r \<Rightarrow> size_col c)"

definition ncols :: "dataframe \<Rightarrow> nat" where
  "ncols d = length d"

definition is_empty :: "dataframe \<Rightarrow> bool" where
  "is_empty d = (ncols d = 0 \<or> nrows d = 0)"

text \<open>Every column of a frame has the same number of entries.\<close>

definition aligned :: "dataframe \<Rightarrow> bool" where
  "aligned d = list_all (\<lambda>(n, c). size_col c = nrows d) d"

subsection \<open>Exceptions\<close>

text \<open>
  \<open>OtherError\<close> stands for every class derived from Python's \<^verbatim>\<open>Exception\<close> that is not
  named here. \<open>SystemExit\<close> and \<open>KeyboardInterrupt\<close> derive from \<^verbatim>\<open>BaseException\<close> only:
  \<^verbatim>\<open>except Exception\<close> does not catch them.
\<close>

datatype key = Label string | Labels "string list" | Position nat

datatype exn =
    KeyError key | IndexError | TypeError | ValueError | OtherError string
  | SystemExit | KeyboardInterrupt

fun is_Exception :: "exn \<Rightarrow> bool" where
  "is_Exception SystemExit = False"
| "is_Exception KeyboardInterrupt = False"
| "is_Exception e = True"

subsection \<open>The libraries\<close>

text \<open>
  What the script takes from pandas, matplotlib and streamlit beyond the operations on
  frames modelled below is a parameter of the model:
  \<^item> \<open>mean64 vs\<close>: the float64 mean that \<^verbatim>\<open>grouped.mean()\<close> computes for a group whose
    values that are not missing are \<open>vs\<close>, in row order; \<open>None\<close> when it is NaN.
    \<open>mean_time64\<close> is the same for a group of timestamps.
  \<^item> \<open>st_map m\<close>: what \<^verbatim>\<open>st.map(m)\<close> does, \<open>None\<close> when it returns and \<open>Some e\<close> when it
    raises \<open>e\<close> (it does so on coordinates that are not numbers).
  \<^item> \<open>scatter_plot xs ys cs\<close>: the same for \<^verbatim>\<open>ax.scatter(xs, ys, c=cs, ...)\<close> followed by
    the colour bar.
  \<^item> \<open>box_plot gs\<close>: the same for the drawing of the boxes by \<^verbatim>\<open>df.boxplot\<close>, once the
    frame is grouped into \<open>gs\<close> (it raises when there is no group, or on values that are
    not numbers).
\<close>

record library =
  mean64 :: "rat list \<Rightarrow> rat option"
  mean_time64 :: "int list \<Rightarrow> int option"
  st_map :: "(string \<times> column) list \<Rightarrow> exn option"
  scatter_plot :: "cell option list \<Rightarrow> cell option list \<Rightarrow> cell option list \<Rightarrow> exn option"
  box_plot :: "(cell \<times> cell list) list \<Rightarrow> exn option"

subsection \<open>Column access, renaming, assignment\<close>

text \<open>\<^verbatim>\<open>df[name]\<close>: a missing label raises KeyError.\<close>

definition getitem :: "dataframe \<Rightarrow> string \<Rightarrow> exn + column" where
  "getitem d n = (case map_of d n of None \<Rightarrow> Inl (KeyError (Label n)) | Some c \<Rightarrow> Inr c)"

text \<open>\<^verbatim>\<open>df[[n1, n2, ...]]\<close>: the named columns in the order asked for; KeyError names
  the labels that are missing.\<close>

definition getitems :: "dataframe \<Rightarrow> string list \<Rightarrow> exn + dataframe" where
  "getitems d ns =
     (let missing = filter (\<lambda>n. map_of d n = None) ns
      in if missing = []
         then Inr (concat (map (\<lambda>n. case map_of d n of None \<Rightarrow> [] | Some c \<Rightarrow> [(n, c)]) ns))
         else Inl (KeyError (Labels missing)))"

text \<open>\<^verbatim>\<open>df.rename(columns=m)\<close>: a new frame; labels outside \<open>m\<close> are kept.\<close>

definition rename :: "(string \<times> string) list \<Rightarrow> dataframe \<Rightarrow> dataframe" where
  "rename m d = map (\<lambda>(n, c). (case map_of m n of None \<Rightarrow> n | Some n' \<Rightarrow> n', c)) d"

text \<open>\<^verbatim>\<open>df[name] = col\<close>: replaces the column in place when the label exists, appends
  it otherwise.\<close>

definition setitem :: "dataframe \<Rightarrow> string \<Rightarrow> column \<Rightarrow> dataframe" where
  "setitem d n c =
     (if n \<in> set (map fst d) then map (\<lambda>(k, v). if k = n then (k, c) else (k, v)) d
      else d @ [(n, c)])"

subsection \<open>Row selection\<close>

text \<open>\<^verbatim>\<open>s[mask]\<close> and \<^verbatim>\<open>df[mask]\<close>: the rows where the boolean mask is true.\<close>

definition select_by :: "bool list \<Rightarrow> 'a list \<Rightarrow> 'a list" where
  "select_by m xs = map snd (filter fst (zip m xs))"

fun mask_col :: "bool list \<Rightarrow> column \<Rightarrow> column" where
  "mask_col m (NumCol xs) = NumCol (select_by m xs)"
| "mask_col m (ObjCol xs) = ObjCol (select_by m xs)"
| "mask_col m (DatetimeCol xs) = DatetimeCol (select_by m xs)"

definition mask_rows :: "bool list \<Rightarrow> dataframe \<Rightarrow> dataframe" where
  "mask_rows m d = map (\<lambda>(n, c). (n, mask_col m c)) d"

text \<open>\<^verbatim>\<open>s == v\<close>: a missing entry equals nothing, and nothing equals a missing value.\<close>

definition eq_mask :: "column \<Rightarrow> cell option \<Rightarrow> bool list" where
  "eq_mask c v = map (\<lambda>x. x \<noteq> None \<and> x = v) (cells c)"

text \<open>\<^verbatim>\<open>df.head()\<close>: the first five rows.\<close>

fun take_col :: "nat \<Rightarrow> column \<Rightarrow> column" where
  "take_col k (NumCol xs) = NumCol (take k xs)"
| "take_col k (ObjCol xs) = ObjCol (take k xs)"
| "take_col k (DatetimeCol xs) = DatetimeCol (take k xs)"

definition head :: "dataframe \<Rightarrow> dataframe" where
  "head d = map (\<lambda>(n, c). (n, take_col 5 c)) d"

text \<open>The rows of a frame, each the list of its entries in column order.\<close>

fun rows :: "dataframe \<Rightarrow> cell option list list" where
  "rows [] = []"
| "rows [(n, c)] = map (\<lambda>x. [x]) (cells c)"
| "rows ((n, c) # d) = map2 (#) (cells c) (rows d)"

subsection \<open>Missing values and duplicates\<close>

primrec somes :: "'a option list \<Rightarrow> 'a list" where
  "somes [] = []"
| "somes (x # xs) = (case x of None \<Rightarrow> somes xs | Some v \<Rightarrow> v # somes xs)"

text \<open>\<^verbatim>\<open>df.duplicated()\<close>: a row is a duplicate when an equal row stands before it;
  missing entries count as equal. \<^verbatim>\<open>df.drop_duplicates()\<close> keeps the first of each.\<close>

fun duplicated :: "'a list \<Rightarrow> 'a list \<Rightarrow> bool list" where
  "duplicated seen [] = []"
| "duplicated seen (r # rs) = (r \<in> set seen) # duplicated (r # seen) rs"

definition drop_duplicates :: "dataframe \<Rightarrow> dataframe" where
  "drop_duplicates d = mask_rows (map Not (duplicated [] (rows d))) d"

text \<open>\<^verbatim>\<open>df.dropna(subset=ns)\<close>: drops the rows with a missing entry in one of the
  named columns; KeyError when a named column is missing.\<close>

definition notna :: "column \<Rightarrow> bool list" where
  "notna c = map (\<lambda>x. x \<noteq> None) (cells c)"

definition dropna :: "string list \<Rightarrow> dataframe \<Rightarrow> exn + dataframe" where
  "dropna ns d =
     (case getitems d ns of
        Inl e \<Rightarrow> Inl e
      | Inr s \<Rightarrow>
          Inr (mask_rows
                (fold (\<lambda>(n, c) m. map2 (\<and>) m (notna c)) s (replicate (nrows d) True)) d))"

subsection \<open>Mode, grouping, mean\<close>

text \<open>\<^verbatim>\<open>s.mode()\<close>: the most frequent values among the entries that are not missing,
  in ascending order; empty when every entry is missing.\<close>

definition mode_list :: "'a::linorder option list \<Rightarrow> 'a list" where
  "mode_list xs =
     (let vs = somes xs; top = fold max (map (count_list vs) vs) 0
      in sort (remdups (filter (\<lambda>v. count_list vs v = top) vs)))"

fun mode :: "column \<Rightarrow> column" where
  "mode (NumCol xs) = NumCol (map Some (mode_list xs))"
| "mode (ObjCol xs) = ObjCol (map Some (mode_list xs))"
| "mode (DatetimeCol xs) = DatetimeCol (map Some (mode_list xs))"

text \<open>\<^verbatim>\<open>s[0]\<close> on a series with the default integer index: the lookup is by label, and
  the label 0 is missing exactly when the series is empty.\<close>

definition item0 :: "column \<Rightarrow> exn + cell option" where
  "item0 c = (case cells c of [] \<Rightarrow> Inl (KeyError (Position 0)) | x # r \<Rightarrow> Inr x)"

text \<open>The group keys of \<^verbatim>\<open>groupby\<close>: the distinct values that are not missing, in
  ascending order. The group of a key holds the rows whose key entry equals it.\<close>

fun group_keys :: "column \<Rightarrow> column" where
  "group_keys (NumCol xs) = NumCol (map Some (sort (remdups (somes xs))))"
| "group_keys (ObjCol xs) = ObjCol (map Some (sort (remdups (somes xs))))"
| "group_keys (DatetimeCol xs) = DatetimeCol (map Some (sort (remdups (somes xs))))"

definition group_mask :: "column \<Rightarrow> cell \<Rightarrow> bool list" where
  "group_mask k g = map (\<lambda>x. x = Some g) (cells k)"

text \<open>\<^verbatim>\<open>df.groupby(by)[col]\<close>: the key column and the value column; KeyError when one
  of them is missing.\<close>

definition groupby :: "dataframe \<Rightarrow> string \<Rightarrow> string \<Rightarrow> exn + column \<times> column" where
  "groupby d by col =
     (case getitem d by of
        Inl e \<Rightarrow> Inl e
      | Inr k \<Rightarrow> (case getitem d col of Inl e \<Rightarrow> Inl e | Inr c \<Rightarrow> Inr (k, c)))"

text \<open>The mean of a group skips missing entries and is missing when none is left.\<close>

definition nanmean :: "library \<Rightarrow> rat list \<Rightarrow> rat option" where
  "nanmean lib vs = (if vs = [] then None else mean64 lib vs)"

definition nanmean_time :: "library \<Rightarrow> int list \<Rightarrow> int option" where
  "nanmean_time lib ts = (if ts = [] then None else mean_time64 lib ts)"

text \<open>\<^verbatim>\<open>grouped.mean()\<close>: one mean per group key. On a column of strings the mean of a
  group that holds a string raises TypeError; groups that hold none have a missing
  mean.\<close>

fun groupby_mean :: "library \<Rightarrow> column \<Rightarrow> column \<Rightarrow> exn + column" where
  "groupby_mean lib k (NumCol xs) =
     Inr (NumCol (map (\<lambda>g. nanmean lib (somes (select_by (group_mask k g) xs)))
                    (somes (cells (group_keys k)))))"
| "groupby_mean lib k (ObjCol xs) =
     (if list_ex (\<lambda>g. somes (select_by (group_mask k g) xs) \<noteq> []) (somes (cells (group_keys k)))
      then Inl TypeError
      else Inr (NumCol (map (\<lambda>g. None) (somes (cells (group_keys k))))))"
| "groupby_mean lib k (DatetimeCol xs) =
     Inr (DatetimeCol (map (\<lambda>g. nanmean_time lib (somes (select_by (group_mask k g) xs)))
                         (somes (cells (group_keys k)))))"

subsection \<open>Calendar year of a timestamp\<close>

text \<open>\<^verbatim>\<open>s.dt.year\<close>: the year of the proleptic Gregorian calendar date of each
  timestamp, missing where the timestamp is.\<close>

definition year_of :: "int \<Rightarrow> int" where
  "year_of t =
     (let z = t div 86400000000000 + 719468;
          era = z div 146097;
          doe = z mod 146097;
          yoe = (doe - doe div 1460 + doe div 36524 - doe div 146096) div 365;
          doy = doe - (365 * yoe + yoe div 4 - yoe div 100);
          mp = (5 * doy + 2) div 153
      in yoe + era * 400 + (if mp < 10 then 0 else 1))"

definition dt_year :: "int option list \<Rightarrow> column" where
  "dt_year ts = NumCol (map (map_option (\<lambda>t. of_int (year_of t))) ts)"

section \<open>The dashboard\<close>

text \<open>
  What the script shows is the list of the calls it makes to the dashboard framework
  and to the plotting library, in order, each with the data it hands over. Titles,
  labels and colours are left out; the texts are named, not spelt. A call that raises
  shows nothing. The calls that write a text, \<^verbatim>\<open>ax1.plot\<close>, \<^verbatim>\<open>st.pyplot\<close> and
  \<^verbatim>\<open>st.dataframe\<close> are taken to return; the map, the scatter and the boxes return or
  raise as the libraries say.
\<close>

datatype heading =
    App_title | Parameters
  | Trend_title | Stations_title | Boxplot_title
  | Map_subtitle | Scatter_subtitle

datatype message =
    Loading | Loaded | Loaded_shape nat nat | Load_failed exn | Frame_empty
  | Date_missing | Not_enough_data | Column_error_trend exn | Column_error_boxplot exn
  | No_coordinates | Trend_caption "cell option" | Boxplot_caption | Rule

text \<open>
  The three figures: the line of the annual means of a station (the station, the years,
  the means), the scatter of the stations (longitudes, latitudes, altitudes as colours),
  and the boxes (one per group: the key and the values that are not missing).
\<close>

datatype figure =
    LineFig "cell option" "cell option list" "cell option list"
  | ScatterFig "cell option list" "cell option list" "cell option list"
  | BoxFig "(cell \<times> cell list) list"

datatype ui =
    Page_config | Title heading | Sidebar_header heading | Text_input string
  | Header heading | Subheader heading
  | Info message | Success message | Error message | Warning message | Markdown message
  | Dataframe_view dataframe | Map_view dataframe | Pyplot figure

text \<open>A call returns or raises; what it showed before stays on the page.\<close>

datatype status = Returned | Raised exn

fun seq :: "ui list \<times> status \<Rightarrow> ui list \<times> status \<Rightarrow> ui list \<times> status" where
  "seq (u, Returned) r = (u @ fst r, snd r)"
| "seq (u, Raised e) r = (u, Raised e)"

subsection \<open>First section: annual trend of the most frequent station\<close>

text \<open>Lines 70 to 75 of the script: the station, and the years and means that are
  plotted.\<close>

definition annual_trend ::
  "library \<Rightarrow> dataframe \<Rightarrow> exn + cell option \<times> cell option list \<times> cell option list" where
  "annual_trend lib d =
     (case getitem d ''NUM_POSTE'' of
        Inl e \<Rightarrow> Inl e
      | Inr ids \<Rightarrow>
         (case item0 (mode ids) of
            Inl e \<Rightarrow> Inl e
          | Inr top_station_id \<Rightarrow>
             (let df_station = mask_rows (eq_mask ids top_station_id) d
              in case groupby df_station ''Year'' ''TN_float'' of
                   Inl e \<Rightarrow> Inl e
                 | Inr (k, c) \<Rightarrow>
                    (case groupby_mean lib k c of
                       Inl e \<Rightarrow> Inl e
                     | Inr m \<Rightarrow>
                        (let df_annual = [(''Year'', group_keys k), (''TN_float'', m)]
                         in case getitem df_annual ''Year'' of
                              Inl e \<Rightarrow> Inl e
                            | Inr xs \<Rightarrow>
                               (case getitem df_annual ''TN_float'' of
                                  Inl e \<Rightarrow> Inl e
                                | Inr ys \<Rightarrow> Inr (top_station_id, cells xs, cells ys)))))))"

text \<open>Lines 66 to 86: IndexError and KeyError are caught, anything else propagates.\<close>

definition visualization1 :: "library \<Rightarrow> dataframe \<Rightarrow> ui list \<times> status" where
  "visualization1 lib d =
     (case annual_trend lib d of
        Inr (s, xs, ys) \<Rightarrow>
          ([Header Trend_title, Pyplot (LineFig s xs ys), Markdown (Trend_caption s)], Returned)
      | Inl IndexError \<Rightarrow> ([Header Trend_title, Warning Not_enough_data], Returned)
      | Inl (KeyError k) \<Rightarrow>
          ([Header Trend_title, Error (Column_error_trend (KeyError k))], Returned)
      | Inl e \<Rightarrow> ([Header Trend_title], Raised e))"

subsection \<open>Second section: the stations\<close>

text \<open>Line 93.\<close>

definition station_columns :: "string list" where
  "station_columns = [''NUM_POSTE'', ''NOM_USUEL'', ''LAT_float'', ''LON_float'', ''ALTI_float'']"

definition stations_map :: "dataframe \<Rightarrow> exn + dataframe" where
  "stations_map d =
     (case getitems d station_columns of
        Inl e \<Rightarrow> Inl e
      | Inr s \<Rightarrow> dropna [''LAT_float'', ''LON_float''] (drop_duplicates s))"

text \<open>Line 98: the frame handed to the map.\<close>

definition map_frame :: "dataframe \<Rightarrow> exn + dataframe" where
  "map_frame sm =
     (case getitems sm [''LAT_float'', ''LON_float''] of
        Inl e \<Rightarrow> Inl e
      | Inr ll \<Rightarrow> Inr (rename [(''LAT_float'', ''lat''), (''LON_float'', ''lon'')] ll))"

text \<open>Lines 102 to 111: the scatter of longitude against latitude, coloured by altitude.\<close>

definition scatter :: "library \<Rightarrow> dataframe \<Rightarrow> exn + figure" where
  "scatter lib sm =
     (case getitem sm ''LON_float'' of
        Inl e \<Rightarrow> Inl e
      | Inr lon \<Rightarrow>
         (case getitem sm ''LAT_float'' of
            Inl e \<Rightarrow> Inl e
          | Inr lat \<Rightarrow>
             (case getitem sm ''ALTI_float'' of
                Inl e \<Rightarrow> Inl e
              | Inr alt \<Rightarrow>
                 (case scatter_plot lib (cells lon) (cells lat) (cells alt) of
                    Some e \<Rightarrow> Inl e
                  | None \<Rightarrow> Inr (ScatterFig (cells lon) (cells lat) (cells alt))))))"

text \<open>Lines 90 to 119: nothing here is inside a \<^verbatim>\<open>try\<close>.\<close>

definition visualization2 :: "library \<Rightarrow> dataframe \<Rightarrow> ui list \<times> status" where
  "visualization2 lib d =
     (case stations_map d of
        Inl e \<Rightarrow> ([Header Stations_title], Raised e)
      | Inr sm \<Rightarrow>
         (if \<not> is_empty sm
          then (case map_frame sm of
                  Inl e \<Rightarrow> ([Header Stations_title, Subheader Map_subtitle], Raised e)
                | Inr mf \<Rightarrow>
                   (case st_map lib mf of
                      Some e \<Rightarrow> ([Header Stations_title, Subheader Map_subtitle], Raised e)
                    | None \<Rightarrow>
                       (case scatter lib sm of
                          Inl e \<Rightarrow>
                            ([Header Stations_title, Subheader Map_subtitle, Map_view mf,
                              Subheader Scatter_subtitle], Raised e)
                        | Inr fig \<Rightarrow>
                            ([Header Stations_title, Subheader Map_subtitle, Map_view mf,
                              Subheader Scatter_subtitle, Pyplot fig], Returned))))
          else ([Header Stations_title, Warning No_coordinates], Returned)))"

subsection \<open>Third section: boxes of the minimum temperature by year\<close>

text \<open>\<^verbatim>\<open>df.boxplot(column=col, by=by)\<close>: groups the frame by \<open>by\<close> (KeyError when a
  label is missing) and draws, for each group, the box of the entries of \<open>col\<close> that are
  not missing.\<close>

definition boxplot :: "library \<Rightarrow> dataframe \<Rightarrow> string \<Rightarrow> string \<Rightarrow> exn + figure" where
  "boxplot lib d col by =
     (case groupby d by col of
        Inl e \<Rightarrow> Inl e
      | Inr (k, c) \<Rightarrow>
         (let gs = map (\<lambda>g. (g, somes (cells (mask_col (group_mask k g) c))))
                     (somes (cells (group_keys k)))
          in case box_plot lib gs of Some e \<Rightarrow> Inl e | None \<Rightarrow> Inr (BoxFig gs)))"

text \<open>Lines 123 to 138: KeyError is caught, anything else propagates.\<close>

definition visualization3 :: "library \<Rightarrow> dataframe \<Rightarrow> ui list \<times> status" where
  "visualization3 lib d =
     (case boxplot lib d ''TN_float'' ''Year'' of
        Inr fig \<Rightarrow> ([Header Boxplot_title, Pyplot fig, Markdown Boxplot_caption], Returned)
      | Inl (KeyError k) \<Rightarrow>
          ([Header Boxplot_title, Error (Column_error_boxplot (KeyError k))], Returned)
      | Inl e \<Rightarrow> ([Header Boxplot_title], Raised e))"

subsection \<open>plot\_visualizations\<close>

text \<open>Lines 47 to 55: the labels of the loaded frame and the labels the charts use.\<close>

definition chart_names :: "(string \<times> string) list" where
  "chart_names =
     [(''tmin'', ''TN_float''), (''latitude'', ''LAT_float''), (''longitude'', ''LON_float''),
      (''alti'', ''ALTI_float''), (''station_id'', ''NUM_POSTE''),
      (''station_name'', ''NOM_USUEL''), (''date'', ''AAAAMMJJ'')]"

text \<open>The three sections in sequence, on the renamed frame with its \<open>Year\<close> column.\<close>

definition charts :: "library \<Rightarrow> dataframe \<Rightarrow> ui list \<times> status" where
  "charts lib d =
     seq (visualization1 lib d) (seq (visualization2 lib d) (visualization3 lib d))"

text \<open>
  The function on values: what it shows for a frame, and whether it returns. The
  department code it also takes is never read.
\<close>

definition plot_visualizations :: "library \<Rightarrow> dataframe \<Rightarrow> ui list \<times> status" where
  "plot_visualizations lib df =
     (let d = rename chart_names df
      in case getitem d ''AAAAMMJJ'' of
           Inr (DatetimeCol ts) \<Rightarrow> charts lib (setitem d ''Year'' (dt_year ts))
         | _ \<Rightarrow> ([Error Date_missing], Returned))"

text \<open>
  The function on objects. Python passes the frame by reference: the store holds the
  frame objects, a reference is an index into it. \<^verbatim>\<open>df.rename\<close> makes a new object,
  to which the local name is bound from then on; \<^verbatim>\<open>df['Year'] = ...\<close> writes into the
  object the local name refers to. The charts only read.
\<close>

type_synonym store = "dataframe list"

definition plot_visualizations_obj ::
  "library \<Rightarrow> store \<Rightarrow> nat \<Rightarrow> store \<times> ui list \<times> status" where
  "plot_visualizations_obj lib h df =
     (let local = length h;
          h1 = h @ [rename chart_names (h ! df)]
      in case getitem (h1 ! local) ''AAAAMMJJ'' of
           Inr (DatetimeCol ts) \<Rightarrow>
             (let h2 = h1[local := setitem (h1 ! local) ''Year'' (dt_year ts)]
              in (h2, charts lib (h2 ! local)))
         | _ \<Rightarrow> (h1, [Error Date_missing], Returned))"

section \<open>Loading\<close>

text \<open>
  \<^verbatim>\<open>process_weather_data\<close> is outside the repository: it is a parameter, a function of
  the department code and of the number of calls made to it before (what it returns may
  change from one call to the next), returning a frame or raising.

  \<open>load_data_body\<close> is lines 26 to 34, the function under the decorator. It returns what
  it showed and the frame, or raises what \<^verbatim>\<open>except Exception\<close> does not catch; with it
  comes the new number of calls.
\<close>

type_synonym source = "string \<Rightarrow> nat \<Rightarrow> exn + dataframe"

definition load_data_body ::
  "source \<Rightarrow> string \<Rightarrow> nat \<Rightarrow> (exn + ui list \<times> dataframe) \<times> nat" where
  "load_data_body process_weather_data dept_code calls =
     (case process_weather_data dept_code calls of
        Inr df \<Rightarrow> (Inr ([], df), Suc calls)
      | Inl e \<Rightarrow>
          (if is_Exception e then (Inr ([Error (Load_failed e)], []), Suc calls)
           else (Inl e, Suc calls)))"

text \<open>
  \<^verbatim>\<open>@st.cache_data\<close> (line 25), with its default arguments: the entries are keyed by the
  argument and never expire. On a hit the stored value is returned and the messages the
  function showed are shown again; the function does not run. On a miss the function
  runs; what it returns is stored, what it raises propagates and nothing is stored.
\<close>

record session =
  cache :: "(string \<times> ui list \<times> dataframe) list"
  calls :: nat

definition cache_data ::
  "(string \<Rightarrow> nat \<Rightarrow> (exn + ui list \<times> dataframe) \<times> nat) \<Rightarrow> string \<Rightarrow> session
     \<Rightarrow> (exn + ui list \<times> dataframe) \<times> session" where
  "cache_data f arg s =
     (case map_of (cache s) arg of
        Some r \<Rightarrow> (Inr r, s)
      | None \<Rightarrow>
          (case f arg (calls s) of
             (Inr r, n) \<Rightarrow> (Inr r, \<lparr>cache = (arg, r) # cache s, calls = n\<rparr>)
           | (Inl e, n) \<Rightarrow> (Inl e, \<lparr>cache = cache s, calls = n\<rparr>)))"

definition load_data ::
  "source \<Rightarrow> string \<Rightarrow> session \<Rightarrow> (exn + ui list \<times> dataframe) \<times> session" where
  "load_data process_weather_data = cache_data (load_data_body process_weather_data)"

section \<open>The page\<close>

text \<open>Lines 142 to 164; \<open>dept_code\<close> is what the text field of the sidebar holds.\<close>

definition main ::
  "library \<Rightarrow> source \<Rightarrow> string \<Rightarrow> session \<Rightarrow> (ui list \<times> status) \<times> session" where
  "main lib process_weather_data dept_code s =
     (let start = [Page_config, Title App_title, Sidebar_header Parameters,
                   Text_input dept_code, Info Loading]
      in case load_data process_weather_data dept_code s of
           (Inl e, s') \<Rightarrow> ((start, Raised e), s')
         | (Inr (shown, df), s') \<Rightarrow>
            (let top = start @ shown @ [Success Loaded]
             in if \<not> is_empty df
                then (let (u, r) = plot_visualizations lib df
                      in ((top @ [Success (Loaded_shape (nrows df) (ncols df)),
                                  Dataframe_view (head df), Markdown Rule] @ u, r), s'))
                else ((top @ [Error Frame_empty], Returned), s')))"

section \<open>Notions used in the statements\<close>

text \<open>A run of loads, one after the other, in one session.\<close>

fun loads :: "source \<Rightarrow> string list \<Rightarrow> session \<Rightarrow> session" where
  "loads f [] s = s"
| "loads f (d # ds) s = loads f ds (snd (load_data f d s))"

text \<open>A session whose cache holds only what \<open>load_data\<close> stored there: each entry is
  what the function under the decorator returned at some earlier call.\<close>

definition stored_by :: "source \<Rightarrow> session \<Rightarrow> bool" where
  "stored_by f s =
     list_all (\<lambda>(d, r). list_ex (\<lambda>n. fst (load_data_body f d n) = Inr r) [0..<calls s])
       (cache s)"

text \<open>The calls that draw a chart, and the call that shows the preview of the frame.\<close>

fun is_chart :: "ui \<Rightarrow> bool" where
  "is_chart (Pyplot f) = True"
| "is_chart (Map_view m) = True"
| "is_chart x = False"

fun is_preview :: "ui \<Rightarrow> bool" where
  "is_preview (Dataframe_view d) = True"
| "is_preview x = False"

text \<open>The years, in ascending order, of the rows of station \<open>s\<close> whose timestamp is not
  missing; and the values of those rows of station \<open>s\<close> that fall in year \<open>y\<close>, the missing
  ones left out.\<close>

definition station_years :: "cell option list \<Rightarrow> int option list \<Rightarrow> cell \<Rightarrow> rat list" where
  "station_years ids ts s =
     sort (remdups (somes (map (\<lambda>(i, t). map_option (\<lambda>x. of_int (year_of x)) t)
                             (filter (\<lambda>(i, t). i = Some s) (zip ids ts)))))"

definition station_year_values ::
  "cell option list \<Rightarrow> int option list \<Rightarrow> rat option list \<Rightarrow> cell \<Rightarrow> rat \<Rightarrow> rat list" where
  "station_year_values ids ts tn s y =
     somes (map (\<lambda>(i, t, v). v)
              (filter (\<lambda>(i, t, v). i = Some s \<and> map_option (\<lambda>x. of_int (year_of x)) t = Some y)
                 (zip ids (zip ts tn))))"

text \<open>What is shown under a header: the calls after it, up to the next header.\<close>

fun is_header :: "ui \<Rightarrow> bool" where
  "is_header (Header h) = True"
| "is_header x = False"

definition shown_under :: "heading \<Rightarrow> ui list \<Rightarrow> ui list" where
  "shown_under h u = takeWhile (\<lambda>x. \<not> is_header x) (drop 1 (dropWhile (\<lambda>x. x \<noteq> Header h) u))"

text \<open>A row of the station table (identifier, name, latitude, longitude, altitude) is
  located when neither its latitude nor its longitude is missing. The distinct rows of
  a list of rows: the first of each, in their order.\<close>

definition located :: "cell option list \<Rightarrow> bool" where
  "located r = (r ! 2 \<noteq> None \<and> r ! 3 \<noteq> None)"

definition distinct_rows :: "'a list \<Rightarrow> 'a list" where
  "distinct_rows rs = rev (remdups (rev rs))"


section \<open>Sample data\<close>

text \<open>
  Three records of two stations. The timestamps are 2020-01-01, 2021-01-01 and
  2020-01-01, at midnight. The second station has no longitude.
\<close>

definition sample_frame :: dataframe where
  "sample_frame =
     [(''station_id'', NumCol [Some 1, Some 1, Some 2]),
      (''station_name'', ObjCol [Some ''A'', Some ''A'', Some ''B'']),
      (''date'', DatetimeCol [Some 1577836800000000000, Some 1609459200000000000,
                              Some 1577836800000000000]),
      (''tmin'', NumCol [Some (-1), Some 3, Some 2]),
      (''latitude'', NumCol [Some 44, Some 44, Some 45]),
      (''longitude'', NumCol [Some 6, Some 6, None]),
      (''alti'', NumCol [Some 500, Some 500, Some 900])]"

text \<open>A source that knows one department, and one whose answer changes at every call.\<close>

definition sample_source :: source where
  "sample_source dept_code n =
     (if dept_code = ''04'' then Inr sample_frame else Inl (OtherError ''no such department''))"

definition changing_source :: source where
  "changing_source dept_code n = Inr [(''tmin'', NumCol [Some (of_nat n)])]"

definition new_session :: session where
  "new_session = \<lparr>cache = [], calls = 0\<rparr>"

text \<open>The sample frame without its coordinates and altitude, and a frame of dates and
  temperatures only.\<close>

definition frame_without_coordinates :: dataframe where
  "frame_without_coordinates =
     [(''station_id'', NumCol [Some 1, Some 1, Some 2]),
      (''station_name'', ObjCol [Some ''A'', Some ''A'', Some ''B'']),
      (''date'', DatetimeCol [Some 1577836800000000000, Some 1609459200000000000,
                              Some 1577836800000000000]),
      (''tmin'', NumCol [Some (-1), Some 3, Some 2])]"

definition frame_of_temperatures :: dataframe where
  "frame_of_temperatures =
     [(''date'', DatetimeCol [Some 1577836800000000000, Some 1609459200000000000]),
      (''tmin'', NumCol [Some (-1), Some 3])]"

text \<open>A frame whose station identifiers are all missing.\<close>

definition frame_of_unknown_stations :: dataframe where
  "frame_of_unknown_stations =
     [(''station_id'', NumCol [None, None]),
      (''date'', DatetimeCol [Some 1577836800000000000, Some 1609459200000000000]),
      (''tmin'', NumCol [Some (-1), Some 3])]"

text \<open>The sample frame without its temperatures.\<close>

definition frame_without_temperatures :: dataframe where
  "frame_without_temperatures =
     [(''station_id'', NumCol [Some 1, Some 1, Some 2]),
      (''station_name'', ObjCol [Some ''A'', Some ''A'', Some ''B'']),
      (''date'', DatetimeCol [Some 1577836800000000000, Some 1609459200000000000,
                              Some 1577836800000000000]),
      (''latitude'', NumCol [Some 44, Some 44, Some 45]),
      (''longitude'', NumCol [Some 6, Some 6, None]),
      (''alti'', NumCol [Some 500, Some 500, Some 900])]"


text \<open>The sample frame without its dates.\<close>

definition frame_without_dates :: dataframe where
  "frame_without_dates =
     [(''station_id'', NumCol [Some 1, Some 1, Some 2]),
      (''station_name'', ObjCol [Some ''A'', Some ''A'', Some ''B'']),
      (''tmin'', NumCol [Some (-1), Some 3, Some 2]),
      (''latitude'', NumCol [Some 44, Some 44, Some 45]),
      (''longitude'', NumCol [Some 6, Some 6, None]),
      (''alti'', NumCol [Some 500, Some 500, Some 900])]"

text \<open>A source whose call is interrupted from the keyboard.\<close>

definition interrupted_source :: source where
  "interrupted_source dept_code n = Inl KeyboardInterrupt"

text \<open>
  Four records of two stations. The timestamps are 2020-01-01, 2020-01-02, 2021-01-01
  and 2020-01-01, at midnight: the first station has two records in 2020.
\<close>

definition winters_frame :: dataframe where
  "winters_frame =
     [(''station_id'', NumCol [Some 1, Some 1, Some 1, Some 2]),
      (''date'', DatetimeCol [Some 1577836800000000000, Some 1577923200000000000,
                              Some 1609459200000000000, Some 1577836800000000000]),
      (''tmin'', NumCol [Some (-1), Some 3, Some 2, Some 5])]"


text \<open>The sample frame with every longitude missing.\<close>

definition frame_without_longitudes :: dataframe where
  "frame_without_longitudes =
     [(''station_id'', NumCol [Some 1, Some 1, Some 2]),
      (''station_name'', ObjCol [Some ''A'', Some ''A'', Some ''B'']),
      (''date'', DatetimeCol [Some 1577836800000000000, Some 1609459200000000000,
                              Some 1577836800000000000]),
      (''tmin'', NumCol [Some (-1), Some 3, Some 2]),
      (''latitude'', NumCol [Some 44, Some 44, Some 45]),
      (''longitude'', NumCol [None, None, None]),
      (''alti'', NumCol [Some 500, Some 500, Some 900])]"

section \<open>Loading: properties\<close>

lemma load_data_hit: "map_of (cache s) d = Some r \<Longrightarrow> load_data f d s = (Inr r, s)"
  by (simp add: load_data_def cache_data_def)

lemma load_data_miss:
  "map_of (cache s) d = None \<Longrightarrow>
   load_data f d s =
     (case fst (load_data_body f d (calls s)) of
        Inr r \<Rightarrow> (Inr r, \<lparr>cache = (d, r) # cache s, calls = Suc (calls s)\<rparr>)
      | Inl e \<Rightarrow> (Inl e, \<lparr>cache = cache s, calls = Suc (calls s)\<rparr>))"
  by (simp add: load_data_def cache_data_def load_data_body_def split: sum.splits)

lemma load_data_miss_result:
  "map_of (cache s) d = None \<Longrightarrow> fst (load_data f d s) = fst (load_data_body f d (calls s))"
  by (simp add: load_data_miss split: sum.splits)

lemma load_data_stores:
  "fst (load_data f d s) = Inr r \<Longrightarrow> map_of (cache (snd (load_data f d s))) d = Some r"
  by (cases "map_of (cache s) d") (auto simp add: load_data_hit load_data_miss split: sum.splits)

lemma load_data_keeps:
  "map_of (cache s) d = Some r \<Longrightarrow> map_of (cache (snd (load_data f d' s))) d = Some r"
  by (cases "map_of (cache s) d'") (auto simp add: load_data_hit load_data_miss split: sum.splits)

lemma loads_keeps: "map_of (cache s) d = Some r \<Longrightarrow> map_of (cache (loads f ds s)) d = Some r"
  by (induction ds arbitrary: s) (simp_all add: load_data_keeps)

lemma load_data_body_returns:
  assumes "fst (load_data_body f d n) = Inr (shown, df)"
  shows "(f d n = Inr df \<and> shown = []) \<or>
    (\<exists>e. f d n = Inl e \<and> is_Exception e \<and> shown = [Error (Load_failed e)] \<and> df = [])"
  using assms by (auto simp add: load_data_body_def split: sum.splits if_splits)

lemma load_data_body_raises:
  assumes "fst (load_data_body f d n) = Inl e"
  shows "f d n = Inl e \<and> \<not> is_Exception e"
  using assms by (auto simp add: load_data_body_def split: sum.splits if_splits)

text \<open>The cache of a new session holds nothing, and loading keeps the cache as
  \<open>stored_by\<close> asks.\<close>

lemma stored_entry:
  assumes "stored_by f s" and "(d, r) \<in> set (cache s)"
  shows "\<exists>n<calls s. fst (load_data_body f d n) = Inr r"
proof -
  from assms(1) have "\<forall>x\<in>set (cache s).
      (\<lambda>(d, r). list_ex (\<lambda>n. fst (load_data_body f d n) = Inr r) [0..<calls s]) x"
    by (simp add: stored_by_def list_all_iff)
  from bspec [OF this assms(2)]
  have "list_ex (\<lambda>n. fst (load_data_body f d n) = Inr r) [0..<calls s]" by simp
  then obtain n where "n \<in> set [0..<calls s]" "fst (load_data_body f d n) = Inr r"
    unfolding list_ex_iff by (rule bexE)
  then show ?thesis by (intro exI [of _ n]) simp
qed

lemma stored_byI:
  assumes "\<And>d r. (d, r) \<in> set (cache s) \<Longrightarrow> \<exists>n<calls s. fst (load_data_body f d n) = Inr r"
  shows "stored_by f s"
  unfolding stored_by_def list_all_iff
proof (rule ballI)
  fix x
  assume x: "x \<in> set (cache s)"
  obtain d r where dr: "x = (d, r)" by (cases x)
  with x assms [of d r] obtain n where "n < calls s" "fst (load_data_body f d n) = Inr r"
    by blast
  then have "list_ex (\<lambda>n. fst (load_data_body f d n) = Inr r) [0..<calls s]"
    unfolding list_ex_iff by (intro bexI [of _ n]) simp_all
  with dr show "case x of (d, r) \<Rightarrow>
      list_ex (\<lambda>n. fst (load_data_body f d n) = Inr r) [0..<calls s]"
    by simp
qed

lemma stored_by_new: "stored_by f new_session"
  by (simp add: stored_by_def new_session_def)

lemma stored_by_load_data:
  assumes "stored_by f s"
  shows "stored_by f (snd (load_data f d s))"
proof (cases "map_of (cache s) d")
  case None
  have old: "\<exists>n<Suc (calls s). fst (load_data_body f d' n) = Inr r"
    if "(d', r) \<in> set (cache s)" for d' r
  proof -
    from stored_entry [OF assms that] obtain n
      where "n < calls s" "fst (load_data_body f d' n) = Inr r" by blast
    then show ?thesis by (intro exI [of _ n]) simp
  qed
  show ?thesis
  proof (cases "fst (load_data_body f d (calls s))")
    case (Inl e)
    with None have "snd (load_data f d s) = \<lparr>cache = cache s, calls = Suc (calls s)\<rparr>"
      by (simp add: load_data_miss)
    moreover have "stored_by f \<lparr>cache = cache s, calls = Suc (calls s)\<rparr>"
      by (rule stored_byI) (simp add: old)
    ultimately show ?thesis by simp
  next
    case (Inr r0)
    with None have "snd (load_data f d s) = \<lparr>cache = (d, r0) # cache s, calls = Suc (calls s)\<rparr>"
      by (simp add: load_data_miss)
    moreover have "stored_by f \<lparr>cache = (d, r0) # cache s, calls = Suc (calls s)\<rparr>"
    proof (rule stored_byI)
      fix d' r
      assume "(d', r) \<in> set (cache \<lparr>cache = (d, r0) # cache s, calls = Suc (calls s)\<rparr>)"
      then consider "d' = d" "r = r0" | "(d', r) \<in> set (cache s)" by auto
      then show "\<exists>n<calls \<lparr>cache = (d, r0) # cache s, calls = Suc (calls s)\<rparr>.
          fst (load_data_body f d' n) = Inr r"
      proof cases
        case 1
        with Inr show ?thesis by (intro exI [of _ "calls s"]) simp
      next
        case 2
        then show ?thesis by (simp add: old)
      qed
    qed
    ultimately show ?thesis by simp
  qed
next
  case (Some r)
  with assms show ?thesis by (simp add: load_data_hit)
qed

lemma load_data_from_body:
  assumes "stored_by f s" and "fst (load_data f d s) = Inr r"
  shows "\<exists>n. fst (load_data_body f d n) = Inr r"
proof (cases "map_of (cache s) d")
  case None
  with assms(2) show ?thesis by (auto simp add: load_data_miss_result)
next
  case (Some r')
  with assms(2) have "r' = r" by (simp add: load_data_hit)
  with Some have "(d, r) \<in> set (cache s)" by (auto dest: map_of_SomeD)
  from stored_entry [OF assms(1) this] show ?thesis by blast
qed

text \<open>
  C2, as stated, fails: when \<^verbatim>\<open>process_weather_data\<close> is interrupted from the keyboard,
  the exception is not derived from \<^verbatim>\<open>Exception\<close>, line 32 does not catch it, and
  \<open>load_data\<close> raises it instead of returning the empty frame.
\<close>

theorem load_data_propagates_counterexample:
  "\<not> (\<forall>process_weather_data dept_code n e. process_weather_data dept_code n = Inl e \<longrightarrow>
         (\<exists>shown. fst (load_data_body process_weather_data dept_code n) = Inr (shown, [])))"
proof
  assume "\<forall>process_weather_data dept_code n e. process_weather_data dept_code n = Inl e \<longrightarrow>
         (\<exists>shown. fst (load_data_body process_weather_data dept_code n) = Inr (shown, []))"
  moreover have "interrupted_source ''04'' 0 = Inl KeyboardInterrupt"
    by (simp add: interrupted_source_def)
  ultimately have "\<exists>shown. fst (load_data_body interrupted_source ''04'' 0) = Inr (shown, [])"
    by blast
  then show False by (simp add: load_data_body_def interrupted_source_def)
qed

text \<open>
  C2, amended. The function under the decorator returns the frame that
  \<^verbatim>\<open>process_weather_data(dept=dept_code)\<close> returned, and shows nothing. When the call
  raises an exception derived from \<^verbatim>\<open>Exception\<close>, it shows the error message and
  returns the empty frame; an exception that is not derived from \<^verbatim>\<open>Exception\<close>
  propagates. The decorated function returns, for a department code that is not in the
  cache, what the function under the decorator returns, and for a code in the cache the
  stored messages and frame, without a call. In a session whose cache holds only what
  \<open>load_data\<close> stored, the frame it returns is therefore the frame some call
  \<^verbatim>\<open>process_weather_data(dept=dept_code)\<close> returned, or the empty frame after a call
  that raised.
\<close>

theorem load_data_returns_source_frame_or_empty:
  "(\<forall>df. process_weather_data dept_code n = Inr df \<longrightarrow>
      load_data_body process_weather_data dept_code n = (Inr ([], df), Suc n))
   \<and> (\<forall>e. process_weather_data dept_code n = Inl e \<and> is_Exception e \<longrightarrow>
      load_data_body process_weather_data dept_code n = (Inr ([Error (Load_failed e)], []), Suc n)
      \<and> is_empty [])
   \<and> (\<forall>e. process_weather_data dept_code n = Inl e \<and> \<not> is_Exception e \<longrightarrow>
      load_data_body process_weather_data dept_code n = (Inl e, Suc n))
   \<and> (map_of (cache s) dept_code = None \<longrightarrow>
      fst (load_data process_weather_data dept_code s) =
        fst (load_data_body process_weather_data dept_code (calls s)))
   \<and> (\<forall>r. map_of (cache s) dept_code = Some r \<longrightarrow>
      load_data process_weather_data dept_code s = (Inr r, s))
   \<and> (stored_by process_weather_data s \<longrightarrow>
      (\<forall>shown df. fst (load_data process_weather_data dept_code s) = Inr (shown, df) \<longrightarrow>
         (\<exists>k. (process_weather_data dept_code k = Inr df \<and> shown = []) \<or>
              (\<exists>e. process_weather_data dept_code k = Inl e \<and> is_Exception e \<and>
                   shown = [Error (Load_failed e)] \<and> df = []))))"
proof -
  have "\<exists>k. (process_weather_data dept_code k = Inr df \<and> shown = []) \<or>
         (\<exists>e. process_weather_data dept_code k = Inl e \<and> is_Exception e \<and>
              shown = [Error (Load_failed e)] \<and> df = [])"
    if "stored_by process_weather_data s"
      and "fst (load_data process_weather_data dept_code s) = Inr (shown, df)" for shown df
  proof -
    from load_data_from_body [OF that] obtain k
      where "fst (load_data_body process_weather_data dept_code k) = Inr (shown, df)"
      by blast
    then show ?thesis by (auto dest: load_data_body_returns)
  qed
  then show ?thesis
    by (simp add: load_data_body_def load_data_miss_result load_data_hit is_empty_def ncols_def)
qed

theorem load_data_returns_source_frame_or_empty_witness:
  "load_data_body sample_source ''04'' 0 = (Inr ([], sample_frame), Suc 0)
   \<and> is_Exception (OtherError ''no such department'')
   \<and> load_data_body sample_source ''2A'' 0 =
       (Inr ([Error (Load_failed (OtherError ''no such department''))], []), Suc 0)
   \<and> \<not> is_Exception KeyboardInterrupt
   \<and> load_data_body interrupted_source ''04'' 0 = (Inl KeyboardInterrupt, Suc 0)
   \<and> fst (load_data sample_source ''04'' new_session) = Inr ([], sample_frame)
   \<and> load_data sample_source ''04'' \<lparr>cache = [(''04'', [], sample_frame)], calls = 1\<rparr>
       = (Inr ([], sample_frame), \<lparr>cache = [(''04'', [], sample_frame)], calls = 1\<rparr>)
   \<and> stored_by sample_source \<lparr>cache = [(''04'', [], sample_frame)], calls = 1\<rparr>"
proof -
  have "stored_by sample_source \<lparr>cache = [(''04'', [], sample_frame)], calls = 1\<rparr>"
    by (simp add: stored_by_def load_data_body_def sample_source_def)
  then show ?thesis
    using load_data_returns_source_frame_or_empty [of sample_source "''04''" 0 new_session]
      load_data_returns_source_frame_or_empty [of sample_source "''2A''" 0 new_session]
      load_data_returns_source_frame_or_empty [of interrupted_source "''04''" 0 new_session]
      load_data_returns_source_frame_or_empty [of sample_source "''04''" 0
        "\<lparr>cache = [(''04'', [], sample_frame)], calls = 1\<rparr>"]
    by (simp add: sample_source_def interrupted_source_def new_session_def)
qed

text \<open>
  C6. The load is memoized by department code. After a load of a code that returned,
  and any further loads in the session, loading the code again returns the same
  messages and the same frame, and leaves the session as it is: the number of calls
  made to \<^verbatim>\<open>process_weather_data\<close> does not change, whatever that function would return
  now. (A load that raised has stored nothing: it is not a load of the code.)
\<close>

theorem load_data_memoized:
  "(let (r1, s1) = load_data process_weather_data dept_code s;
        s2 = loads process_weather_data others s1;
        (r2, s3) = load_data process_weather_data dept_code s2
    in \<forall>v. r1 = Inr v \<longrightarrow> r2 = r1 \<and> s3 = s2 \<and> calls s3 = calls s2)"
proof -
  obtain r1 s1 where l1: "load_data process_weather_data dept_code s = (r1, s1)"
    by (cases "load_data process_weather_data dept_code s")
  have "load_data process_weather_data dept_code (loads process_weather_data others s1)
      = (Inr v, loads process_weather_data others s1)" if "r1 = Inr v" for v
  proof -
    have "map_of (cache s1) dept_code = Some v"
      using load_data_stores [of process_weather_data dept_code s v] l1 that by simp
    then have "map_of (cache (loads process_weather_data others s1)) dept_code = Some v"
      by (rule loads_keeps)
    then show ?thesis by (rule load_data_hit)
  qed
  with l1 show ?thesis by (auto simp add: Let_def)
qed

theorem load_data_memoized_witness:
  "fst (load_data changing_source ''04'' new_session) = Inr ([], [(''tmin'', NumCol [Some 0])])
   \<and> fst (load_data changing_source ''04''
            (loads changing_source [''05''] (snd (load_data changing_source ''04'' new_session))))
       = Inr ([], [(''tmin'', NumCol [Some 0])])
   \<and> calls (snd (load_data changing_source ''04''
            (loads changing_source [''05''] (snd (load_data changing_source ''04'' new_session))))) = 2"
  using load_data_memoized [of changing_source "''04''" new_session "[''05'']"]
  by (simp add: Let_def split_beta load_data_def cache_data_def load_data_body_def
      changing_source_def new_session_def)

section \<open>The page: properties\<close>

lemma seq_events: "fst (seq a b) = (case snd a of Returned \<Rightarrow> fst a @ fst b | Raised e \<Rightarrow> fst a)"
  by (cases a; cases "snd a") auto

lemma seq_status: "snd (seq a b) = (case snd a of Returned \<Rightarrow> snd b | Raised e \<Rightarrow> Raised e)"
  by (cases a; cases "snd a") auto

lemma visualization1_no_preview: "\<not> list_ex is_preview (fst (visualization1 lib d))"
  by (simp add: visualization1_def split: sum.splits exn.splits prod.splits)

lemma visualization2_no_preview: "\<not> list_ex is_preview (fst (visualization2 lib d))"
  by (simp add: visualization2_def split: sum.splits option.splits)

lemma visualization3_no_preview: "\<not> list_ex is_preview (fst (visualization3 lib d))"
  by (simp add: visualization3_def split: sum.splits exn.splits)

lemma charts_no_preview: "\<not> list_ex is_preview (fst (charts lib d))"
  using visualization1_no_preview [of lib d] visualization2_no_preview [of lib d]
    visualization3_no_preview [of lib d]
  by (simp add: charts_def seq_events split: status.splits)

lemma plot_visualizations_no_preview:
  "\<not> list_ex is_preview (fst (plot_visualizations lib df))"
  by (simp add: plot_visualizations_def Let_def charts_no_preview
      split: sum.splits column.splits)

lemma load_data_shows:
  assumes "stored_by f s" and "fst (load_data f d s) = Inr (shown, df)"
  shows "\<not> list_ex is_chart shown \<and> \<not> list_ex is_preview shown"
proof -
  obtain n where "fst (load_data_body f d n) = Inr (shown, df)"
    using load_data_from_body [OF assms] by blast
  then show ?thesis using load_data_body_returns [of f d n shown df] by auto
qed

text \<open>
  C7. In a session whose cache holds only what \<open>load_data\<close> stored, when \<open>load_data\<close>
  returns a frame, \<open>main\<close> shows the preview of the frame exactly when the frame is not
  empty, and then goes on with what \<open>plot_visualizations\<close> shows for that frame and ends
  as it ends. When the frame is empty (the frame returned after a failed load is),
  \<open>main\<close> shows the error message after the messages of the load, draws no chart, and
  returns. (When \<open>load_data\<close> raises, there is no frame, and \<open>main\<close> raises.)
\<close>

theorem main_plots_iff_frame_not_empty:
  assumes "stored_by process_weather_data s"
  shows "(case load_data process_weather_data dept_code s of
            (Inl e, s') \<Rightarrow>
              main lib process_weather_data dept_code s =
                (([Page_config, Title App_title, Sidebar_header Parameters,
                   Text_input dept_code, Info Loading], Raised e), s')
          | (Inr (shown, df), s') \<Rightarrow>
             (let ((u, r), s'') = main lib process_weather_data dept_code s;
                  top = [Page_config, Title App_title, Sidebar_header Parameters,
                         Text_input dept_code, Info Loading] @ shown @ [Success Loaded]
              in s'' = s' \<and> list_ex is_preview u = (\<not> is_empty df) \<and>
                 (if is_empty df
                  then u = top @ [Error Frame_empty] \<and> r = Returned \<and> \<not> list_ex is_chart u
                  else u = top @ [Success (Loaded_shape (nrows df) (ncols df)),
                                  Dataframe_view (head df), Markdown Rule]
                             @ fst (plot_visualizations lib df)
                       \<and> r = snd (plot_visualizations lib df))))"
proof (cases "fst (load_data process_weather_data dept_code s)")
  case (Inl e)
  then show ?thesis by (simp add: main_def split_beta split: prod.splits)
next
  case (Inr v)
  obtain shown df where v: "v = (shown, df)" by (cases v)
  obtain s' where s': "snd (load_data process_weather_data dept_code s) = s'" by simp
  from Inr v s' have l: "load_data process_weather_data dept_code s = (Inr (shown, df), s')"
    by (simp add: prod_eq_iff)
  have "\<not> list_ex is_chart shown" "\<not> list_ex is_preview shown"
    using load_data_shows [OF assms, of dept_code shown df] l by simp_all
  then show ?thesis
    using plot_visualizations_no_preview [of lib df]
    by (simp add: main_def l Let_def split_beta)
qed

theorem main_plots_iff_frame_not_empty_witness:
  "stored_by sample_source new_session
   \<and> (\<forall>lib. fst (main lib sample_source ''2A'' new_session) =
       ([Page_config, Title App_title, Sidebar_header Parameters, Text_input ''2A'',
         Info Loading, Error (Load_failed (OtherError ''no such department'')),
         Success Loaded, Error Frame_empty], Returned))
   \<and> (\<forall>lib. list_ex is_preview (fst (fst (main lib sample_source ''04'' new_session))))
   \<and> (\<forall>lib. fst (main lib sample_source ''04'' new_session) =
       ([Page_config, Title App_title, Sidebar_header Parameters, Text_input ''04'',
         Info Loading, Success Loaded, Success (Loaded_shape 3 7),
         Dataframe_view (head sample_frame), Markdown Rule]
        @ fst (plot_visualizations lib sample_frame),
        snd (plot_visualizations lib sample_frame)))"
proof -
  have a: "load_data sample_source ''2A'' new_session =
      (Inr ([Error (Load_failed (OtherError ''no such department''))], []),
       \<lparr>cache = [(''2A'', [Error (Load_failed (OtherError ''no such department''))], [])],
        calls = 1\<rparr>)"
    by (simp add: load_data_def cache_data_def load_data_body_def sample_source_def
        new_session_def)
  have b: "load_data sample_source ''04'' new_session =
      (Inr ([], sample_frame), \<lparr>cache = [(''04'', [], sample_frame)], calls = 1\<rparr>)"
    by (simp add: load_data_def cache_data_def load_data_body_def sample_source_def
        new_session_def)
  have c: "is_empty []" "\<not> is_empty sample_frame" "nrows sample_frame = 3"
    "ncols sample_frame = 7"
    by (simp_all add: is_empty_def ncols_def nrows_def size_col_def sample_frame_def)
  have "fst (main lib sample_source ''2A'' new_session) =
       ([Page_config, Title App_title, Sidebar_header Parameters, Text_input ''2A'',
         Info Loading, Error (Load_failed (OtherError ''no such department'')),
         Success Loaded, Error Frame_empty], Returned)
     \<and> list_ex is_preview (fst (fst (main lib sample_source ''04'' new_session)))
     \<and> fst (main lib sample_source ''04'' new_session) =
       ([Page_config, Title App_title, Sidebar_header Parameters, Text_input ''04'',
         Info Loading, Success Loaded, Success (Loaded_shape 3 7),
         Dataframe_view (head sample_frame), Markdown Rule]
        @ fst (plot_visualizations lib sample_frame),
        snd (plot_visualizations lib sample_frame))" for lib
    using main_plots_iff_frame_not_empty [OF stored_by_new,
        where process_weather_data = sample_source and dept_code = "''2A''" and lib = lib]
      main_plots_iff_frame_not_empty [OF stored_by_new,
        where process_weather_data = sample_source and dept_code = "''04''" and lib = lib]
    by (simp add: a b c split_beta Let_def prod_eq_iff)
  then show ?thesis using stored_by_new [of sample_source] by blast
qed

section \<open>plot\_visualizations: properties\<close>

text \<open>
  C9. \<open>plot_visualizations\<close> does not change the frame it is given. After the call the
  store holds every frame object it held, unchanged, among them the argument; the
  renamed frame, to which the \<open>Year\<close> column is added, is one new object. What is shown
  is what the function on values shows for the argument.
\<close>

theorem plot_visualizations_keeps_argument:
  assumes "df < length h"
  shows "(let (h', out) = plot_visualizations_obj lib h df
          in take (length h) h' = h \<and> h' ! df = h ! df \<and> length h' = Suc (length h)
             \<and> out = plot_visualizations lib (h ! df))"
  using assms
  by (auto simp add: plot_visualizations_obj_def plot_visualizations_def Let_def nth_append
      split: sum.splits column.splits)

theorem plot_visualizations_keeps_argument_witness:
  "0 < length [sample_frame]
   \<and> (\<forall>lib. fst (plot_visualizations_obj lib [sample_frame] 0) ! 0 = sample_frame)
   \<and> (\<forall>lib. length (fst (plot_visualizations_obj lib [sample_frame] 0)) = 2)
   \<and> (\<forall>lib. snd (plot_visualizations_obj lib [sample_frame] 0) =
             plot_visualizations lib sample_frame)"
proof -
  have "fst (plot_visualizations_obj lib [sample_frame] 0) ! 0 = sample_frame
      \<and> length (fst (plot_visualizations_obj lib [sample_frame] 0)) = 2
      \<and> snd (plot_visualizations_obj lib [sample_frame] 0) =
          plot_visualizations lib sample_frame" for lib
    using plot_visualizations_keeps_argument [of 0 "[sample_frame]" lib]
    by (simp add: split_beta)
  then show ?thesis by simp
qed

text \<open>The new object of that call: the renamed labels and the \<open>Year\<close> column.\<close>

lemma year_column_is_written:
  "map fst (fst (plot_visualizations_obj lib [sample_frame] 0) ! 1) =
     [''NUM_POSTE'', ''NOM_USUEL'', ''AAAAMMJJ'', ''TN_float'', ''LAT_float'', ''LON_float'',
      ''ALTI_float'', ''Year'']"
  by code_simp

text \<open>
  C3. The second section is not guarded. On the sample frame without its coordinates and
  altitude the first section is shown (each year of the station has one temperature,
  of which the library takes the mean), then the selection of the station columns
  raises KeyError, which nothing catches: \<open>plot_visualizations\<close> raises and the third
  section is not shown.
\<close>

theorem missing_coordinates_propagate:
  "plot_visualizations lib frame_without_coordinates =
     ([Header Trend_title,
       Pyplot (LineFig (Some (Num 1)) [Some (Num 2020), Some (Num 2021)]
                 [map_option Num (mean64 lib [- 1]), map_option Num (mean64 lib [3])]),
       Markdown (Trend_caption (Some (Num 1))), Header Stations_title],
      Raised (KeyError (Labels [''LAT_float'', ''LON_float'', ''ALTI_float''])))"
  by code_simp

text \<open>
  C5. On a frame with a datetime \<open>date\<close> column and a \<open>tmin\<close> column and nothing else, the
  first section shows its column error, the second section raises KeyError, and no
  boxplot is drawn.
\<close>

theorem boxplot_not_reached:
  "plot_visualizations lib frame_of_temperatures =
     ([Header Trend_title, Error (Column_error_trend (KeyError (Label ''NUM_POSTE''))),
       Header Stations_title],
      Raised (KeyError (Labels [''NUM_POSTE'', ''NOM_USUEL'', ''LAT_float'', ''LON_float'',
                                 ''ALTI_float''])))"
  by code_simp

section \<open>Frames and modes: lemmas\<close>

subsection \<open>Frames as maps from labels to columns\<close>

lemma map_of_rename:
  assumes "distinct (map fst (rename m d))" and "map_of d n = Some c"
  shows "map_of (rename m d) (case map_of m n of None \<Rightarrow> n | Some n' \<Rightarrow> n') = Some c"
proof -
  from assms(2) have "(n, c) \<in> set d" by (rule map_of_SomeD)
  then have "(case map_of m n of None \<Rightarrow> n | Some n' \<Rightarrow> n', c) \<in> set (rename m d)"
    by (force simp add: rename_def)
  with assms(1) show ?thesis by (rule map_of_is_SomeI)
qed

lemma map_of_replace:
  "map_of (map (\<lambda>(k, v). if k = n then (k, c) else (k, v)) e) k
     = (if k = n then map_option (\<lambda>v. c) (map_of e n) else map_of e k)"
  by (induction e) auto

lemma map_of_setitem: "map_of (setitem d n c) k = (if k = n then Some c else map_of d k)"
proof (cases "n \<in> set (map fst d)")
  case True
  then obtain v where "map_of d n = Some v"
    by (cases "map_of d n") (auto simp add: map_of_eq_None_iff)
  with True show ?thesis by (simp add: setitem_def map_of_replace)
next
  case False
  then have "map_of d n = None" by (simp add: map_of_eq_None_iff)
  with False show ?thesis by (auto simp add: setitem_def map_add_def split: option.splits)
qed

lemma map_of_mask_rows: "map_of (mask_rows m d) k = map_option (mask_col m) (map_of d k)"
  by (simp add: mask_rows_def map_of_map)

subsection \<open>The mode\<close>

lemma fold_max_ge: "(a::nat) \<le> fold max ns a"
proof (induction ns arbitrary: a)
  case Nil
  show ?case by simp
next
  case (Cons n ns)
  have "a \<le> max n a" by simp
  also have "max n a \<le> fold max ns (max n a)" by (rule Cons.IH)
  finally show ?case by simp
qed

lemma fold_max_upper: "n \<in> set ns \<Longrightarrow> (n::nat) \<le> fold max ns a"
proof (induction ns arbitrary: a)
  case Nil
  then show ?case by simp
next
  case (Cons m ns)
  show ?case
  proof (cases "n = m")
    case True
    have "n \<le> max m a" using True by simp
    also have "max m a \<le> fold max ns (max m a)" by (rule fold_max_ge)
    finally show ?thesis by simp
  next
    case False
    with Cons.prems have "n \<in> set ns" by simp
    then show ?thesis using Cons.IH by simp
  qed
qed

lemma fold_max_in: "fold max ns (a::nat) = a \<or> fold max ns a \<in> set ns"
proof (induction ns arbitrary: a)
  case Nil
  show ?case by simp
next
  case (Cons n ns)
  from Cons.IH [of "max n a"] show ?case by (auto simp add: max_def split: if_splits)
qed

lemma count_list_pos: "v \<in> set vs \<Longrightarrow> 0 < count_list vs v"
  using count_list_0_iff [of vs v] by auto

lemma mode_list_set:
  "set (mode_list xs) =
     {v \<in> set (somes xs). \<forall>w. count_list (somes xs) w \<le> count_list (somes xs) v}"
proof -
  define vs where "vs = somes xs"
  define top where "top = fold max (map (count_list vs) vs) 0"
  have upper: "count_list vs w \<le> top" for w
  proof (cases "w \<in> set vs")
    case True
    then show ?thesis unfolding top_def by (intro fold_max_upper) simp
  next
    case False
    then show ?thesis by (simp add: count_list_0_iff)
  qed
  have attained: "\<exists>u \<in> set vs. count_list vs u = top" if "v \<in> set vs" for v
  proof -
    have "0 < count_list vs v" using that by (rule count_list_pos)
    with upper [of v] have "top \<noteq> 0" by simp
    with fold_max_in [of "map (count_list vs) vs" 0] show ?thesis
      unfolding top_def by auto
  qed
  have "count_list vs v = top \<longleftrightarrow> (\<forall>w. count_list vs w \<le> count_list vs v)"
    if "v \<in> set vs" for v
  proof
    assume "count_list vs v = top"
    with upper show "\<forall>w. count_list vs w \<le> count_list vs v" by simp
  next
    assume a: "\<forall>w. count_list vs w \<le> count_list vs v"
    from attained [OF that] obtain u where "count_list vs u = top" by blast
    with a upper [of v] show "count_list vs v = top" by (metis le_antisym)
  qed
  then show ?thesis
    by (auto simp add: mode_list_def Let_def vs_def [symmetric] top_def [symmetric])
qed

lemma mode_list_not_empty:
  assumes "somes xs \<noteq> []"
  shows "mode_list xs \<noteq> []"
proof -
  define vs where "vs = somes xs"
  define top where "top = fold max (map (count_list vs) vs) 0"
  from assms obtain v where v: "v \<in> set vs" by (cases vs) (auto simp add: vs_def)
  then have "0 < count_list vs v" by (rule count_list_pos)
  moreover have "count_list vs v \<le> top" unfolding top_def using v
    by (intro fold_max_upper) simp
  ultimately have "top \<noteq> 0" by simp
  with fold_max_in [of "map (count_list vs) vs" 0] obtain u
    where "u \<in> set vs" "count_list vs u = top" unfolding top_def by auto
  then have "u \<in> set (mode_list xs)"
    by (simp add: mode_list_def Let_def vs_def [symmetric] top_def [symmetric])
  then show ?thesis by auto
qed

lemma somes_map_option: "somes (map (map_option f) xs) = map f (somes xs)"
  by (induction xs) (auto split: option.splits)

lemma set_somes: "set (somes xs) = {v. Some v \<in> set xs}"
  by (induction xs) (auto split: option.splits)

lemma somes_cells_not_empty:
  "somes (cells c) \<noteq> [] \<longleftrightarrow> (\<exists>v. Some v \<in> set (cells c))"
  using set_somes [of "cells c"] by (cases "somes (cells c)") auto

lemma mode_not_empty:
  assumes "\<exists>v. Some v \<in> set (cells ids)"
  shows "cells (mode ids) \<noteq> []"
proof -
  from assms have "somes (cells ids) \<noteq> []" by (simp add: somes_cells_not_empty)
  then show ?thesis
    by (cases ids) (simp_all add: somes_map_option mode_list_not_empty)
qed

lemma mode_cells_present: "None \<notin> set (cells (mode ids))"
  by (cases ids) auto

lemma item0_mode:
  assumes "\<exists>v. Some v \<in> set (cells ids)"
  shows "\<exists>v. item0 (mode ids) = Inr (Some v)"
proof -
  from mode_not_empty [OF assms] obtain x r where c: "cells (mode ids) = x # r"
    by (cases "cells (mode ids)") auto
  with mode_cells_present [of ids] obtain v where "x = Some v" by (cases x) auto
  with c show ?thesis by (simp add: item0_def)
qed

lemma annual_trend_no_IndexError: "annual_trend lib d \<noteq> Inl IndexError"
proof -
  have g: "groupby_mean lib k c \<noteq> Inl IndexError" for k c by (cases c) simp_all
  show ?thesis
    using g
    by (auto simp add: annual_trend_def getitem_def item0_def groupby_def Let_def
        split: sum.splits option.splits list.splits prod.splits)
qed

text \<open>In the first section only the indexing of the mode raises KeyError for a
  position, and what the section plots is the station that the indexing returns.\<close>

lemma annual_trend_position:
  assumes "annual_trend lib d = Inl (KeyError (Position n))"
  shows "\<exists>ids. getitem d ''NUM_POSTE'' = Inr ids \<and> item0 (mode ids) = Inl (KeyError (Position n))"
proof -
  have g: "groupby_mean lib k c \<noteq> Inl (KeyError (Position n))" for k c
    by (cases c) simp_all
  show ?thesis
    using g assms
    by (auto simp add: annual_trend_def getitem_def groupby_def Let_def
        split: sum.splits option.splits prod.splits)
qed

lemma annual_trend_station:
  assumes "annual_trend lib d = Inr (v, xs, ys)"
  shows "\<exists>ids. getitem d ''NUM_POSTE'' = Inr ids \<and> item0 (mode ids) = Inr v"
  using assms
  by (auto simp add: annual_trend_def Let_def split: sum.splits prod.splits)

lemma visualization1_no_warning:
  "Warning Not_enough_data \<notin> set (fst (visualization1 lib d))"
  using annual_trend_no_IndexError [of lib d]
  by (auto simp add: visualization1_def split: sum.splits exn.splits prod.splits)

lemma visualization2_no_warning:
  "Warning Not_enough_data \<notin> set (fst (visualization2 lib d))"
  by (auto simp add: visualization2_def split: sum.splits option.splits)

lemma visualization3_no_warning:
  "Warning Not_enough_data \<notin> set (fst (visualization3 lib d))"
  by (auto simp add: visualization3_def split: sum.splits exn.splits prod.splits)

lemma plot_visualizations_no_warning:
  "Warning Not_enough_data \<notin> set (fst (plot_visualizations lib df))"
  using visualization1_no_warning visualization2_no_warning visualization3_no_warning
  by (auto simp add: plot_visualizations_def charts_def seq_events Let_def
      split: sum.splits column.splits status.splits)

lemma visualization1_trend_error:
  assumes "Error (Column_error_trend e) \<in> set (fst (visualization1 lib d))"
  shows "annual_trend lib d = Inl e"
  using assms
  by (auto simp add: visualization1_def split: sum.splits exn.splits prod.splits)

lemma visualization2_no_trend_error:
  "Error (Column_error_trend e) \<notin> set (fst (visualization2 lib d))"
  by (auto simp add: visualization2_def split: sum.splits option.splits)

lemma visualization3_no_trend_error:
  "Error (Column_error_trend e) \<notin> set (fst (visualization3 lib d))"
  by (auto simp add: visualization3_def split: sum.splits exn.splits prod.splits)

lemma charts_trend_error:
  assumes "Error (Column_error_trend e) \<in> set (fst (charts lib d))"
  shows "annual_trend lib d = Inl e"
proof -
  from assms have "Error (Column_error_trend e) \<in> set (fst (visualization1 lib d))"
    using visualization2_no_trend_error [of e lib d] visualization3_no_trend_error [of e lib d]
    by (auto simp add: charts_def seq_events split: status.splits)
  then show ?thesis by (rule visualization1_trend_error)
qed

lemma plot_visualizations_trend_error:
  assumes "Error (Column_error_trend e) \<in> set (fst (plot_visualizations lib df))"
  shows "\<exists>c. annual_trend lib (setitem (rename chart_names df) ''Year'' c) = Inl e"
  using assms charts_trend_error [of e lib]
  by (auto simp add: plot_visualizations_def Let_def split: sum.splits column.splits)

lemma station_column_renamed:
  assumes "distinct (map fst (rename chart_names df))"
    and "map_of df ''station_id'' = Some ids"
  shows "getitem (setitem (rename chart_names df) ''Year'' c) ''NUM_POSTE'' = Inr ids"
proof -
  have "map_of (rename chart_names df) ''NUM_POSTE'' = Some ids"
    using map_of_rename [OF assms(1) assms(2)] by (simp add: chart_names_def)
  then show ?thesis by (simp add: getitem_def map_of_setitem)
qed

text \<open>
  C10, as stated, fails: a frame that is not empty and has the station column can have
  an empty mode, when every station identifier is missing; indexing the mode then
  raises, and the first section shows its column error.
\<close>

theorem mode_of_station_ids_counterexample:
  "\<not> (\<forall>df ids. \<not> is_empty df \<and> map_of df ''station_id'' = Some ids \<longrightarrow>
         cells (mode ids) \<noteq> [] \<and> (\<exists>v. item0 (mode ids) = Inr v))
   \<and> (\<forall>lib. Error (Column_error_trend (KeyError (Position 0)))
               \<in> set (fst (plot_visualizations lib frame_of_unknown_stations)))"
proof -
  have "cells (mode (NumCol [None, None])) \<noteq> []"
    if a: "\<forall>df ids. \<not> is_empty df \<and> map_of df ''station_id'' = Some ids \<longrightarrow>
         cells (mode ids) \<noteq> [] \<and> (\<exists>v. item0 (mode ids) = Inr v)"
  proof -
    have "\<not> is_empty frame_of_unknown_stations"
      by (simp add: frame_of_unknown_stations_def is_empty_def ncols_def nrows_def size_col_def)
    moreover have "map_of frame_of_unknown_stations ''station_id'' = Some (NumCol [None, None])"
      by (simp add: frame_of_unknown_stations_def)
    ultimately show ?thesis using a by blast
  qed
  then have "\<not> (\<forall>df ids. \<not> is_empty df \<and> map_of df ''station_id'' = Some ids \<longrightarrow>
         cells (mode ids) \<noteq> [] \<and> (\<exists>v. item0 (mode ids) = Inr v))"
    by (auto simp add: mode_list_def)
  moreover have "plot_visualizations lib frame_of_unknown_stations =
      ([Header Trend_title, Error (Column_error_trend (KeyError (Position 0))),
        Header Stations_title],
       Raised (KeyError (Labels [''NOM_USUEL'', ''LAT_float'', ''LON_float'', ''ALTI_float''])))"
    for lib
    by code_simp
  ultimately show ?thesis by simp
qed

text \<open>
  C10, amended. For every frame whose labels stay distinct under the renaming and whose
  station column holds at least one identifier that is not missing: the column that the
  first section reads under \<open>NUM_POSTE\<close> is that station column; its mode is not empty and
  indexing its first element succeeds, with a value that is not missing; the first
  section raises neither IndexError nor the KeyError of that indexing, and when it
  draws, it draws the station so obtained; the page shows neither the warning of the
  IndexError branch nor the column error of a failed indexing.
\<close>

theorem mode_of_station_ids_not_empty:
  assumes "distinct (map fst (rename chart_names df))"
    and "map_of df ''station_id'' = Some ids"
    and "\<exists>v. Some v \<in> set (cells ids)"
  shows "(\<forall>c. getitem (setitem (rename chart_names df) ''Year'' c) ''NUM_POSTE'' = Inr ids)
         \<and> cells (mode ids) \<noteq> [] \<and> (\<exists>v. item0 (mode ids) = Inr (Some v))
         \<and> (\<forall>c. annual_trend lib (setitem (rename chart_names df) ''Year'' c) \<noteq> Inl IndexError
               \<and> annual_trend lib (setitem (rename chart_names df) ''Year'' c)
                   \<noteq> Inl (KeyError (Position 0))
               \<and> (\<forall>v xs ys. annual_trend lib (setitem (rename chart_names df) ''Year'' c)
                               = Inr (v, xs, ys) \<longrightarrow> item0 (mode ids) = Inr v))
         \<and> Warning Not_enough_data \<notin> set (fst (plot_visualizations lib df))
         \<and> Error (Column_error_trend (KeyError (Position 0)))
             \<notin> set (fst (plot_visualizations lib df))"
proof -
  note g = station_column_renamed [OF assms(1) assms(2)]
  from item0_mode [OF assms(3)] obtain w where w: "item0 (mode ids) = Inr (Some w)" by blast
  have p: "annual_trend lib (setitem (rename chart_names df) ''Year'' c)
             \<noteq> Inl (KeyError (Position 0))" for c
  proof
    assume "annual_trend lib (setitem (rename chart_names df) ''Year'' c)
              = Inl (KeyError (Position 0))"
    from annual_trend_position [OF this] show False using g [of c] w by auto
  qed
  have q: "item0 (mode ids) = Inr v"
    if "annual_trend lib (setitem (rename chart_names df) ''Year'' c) = Inr (v, xs, ys)"
    for c v xs ys
    using annual_trend_station [OF that] g [of c] by auto
  have r: "Error (Column_error_trend (KeyError (Position 0)))
             \<notin> set (fst (plot_visualizations lib df))"
  proof
    assume "Error (Column_error_trend (KeyError (Position 0)))
              \<in> set (fst (plot_visualizations lib df))"
    from plot_visualizations_trend_error [OF this] p show False by blast
  qed
  have m: "cells (mode ids) \<noteq> []" by (rule mode_not_empty [OF assms(3)])
  have n: "\<exists>v. item0 (mode ids) = Inr (Some v)" using w by blast
  have t: "\<forall>c. annual_trend lib (setitem (rename chart_names df) ''Year'' c) \<noteq> Inl IndexError
               \<and> annual_trend lib (setitem (rename chart_names df) ''Year'' c)
                   \<noteq> Inl (KeyError (Position 0))
               \<and> (\<forall>v xs ys. annual_trend lib (setitem (rename chart_names df) ''Year'' c)
                               = Inr (v, xs, ys) \<longrightarrow> item0 (mode ids) = Inr v)"
    using annual_trend_no_IndexError p q by blast
  from g m n t plot_visualizations_no_warning [of lib df] r show ?thesis by blast
qed

theorem mode_of_station_ids_not_empty_witness:
  "distinct (map fst (rename chart_names sample_frame))
   \<and> map_of sample_frame ''station_id'' = Some (NumCol [Some 1, Some 1, Some 2])
   \<and> Some (Num 1) \<in> set (cells (NumCol [Some 1, Some 1, Some 2]))
   \<and> cells (mode (NumCol [Some 1, Some 1, Some 2])) \<noteq> []
   \<and> item0 (mode (NumCol [Some 1, Some 1, Some 2])) = Inr (Some (Num 1))
   \<and> (\<forall>lib. Warning Not_enough_data \<notin> set (fst (plot_visualizations lib sample_frame)))
   \<and> (\<forall>lib. Error (Column_error_trend (KeyError (Position 0)))
               \<notin> set (fst (plot_visualizations lib sample_frame)))"
proof -
  have d: "distinct (map fst (rename chart_names sample_frame))" by code_simp
  have a: "map_of sample_frame ''station_id'' = Some (NumCol [Some 1, Some 1, Some 2])"
    by (simp add: sample_frame_def)
  have b: "Some (Num 1) \<in> set (cells (NumCol [Some 1, Some 1, Some 2]))" by simp
  then have c: "\<exists>v. Some v \<in> set (cells (NumCol [Some 1, Some 1, Some 2]))" by blast
  have e: "item0 (mode (NumCol [Some 1, Some 1, Some 2])) = Inr (Some (Num 1))" by code_simp
  have "Warning Not_enough_data \<notin> set (fst (plot_visualizations lib sample_frame))
      \<and> Error (Column_error_trend (KeyError (Position 0)))
          \<notin> set (fst (plot_visualizations lib sample_frame))
      \<and> cells (mode (NumCol [Some 1, Some 1, Some 2])) \<noteq> []" for lib
    using mode_of_station_ids_not_empty [OF d a c, of lib] by blast
  with d a b e show ?thesis by blast
qed

section \<open>First section: properties\<close>

lemma select_by_map:
  "select_by (map P xs) (map g ys) = map (\<lambda>(x, y). g y) (filter (\<lambda>(x, y). P x) (zip xs ys))"
proof (induction xs arbitrary: ys)
  case Nil
  show ?case by (simp add: select_by_def)
next
  case (Cons x xs)
  then show ?case by (cases ys) (auto simp add: select_by_def)
qed

lemma select_by_nested:
  "select_by (map Q (select_by (map P xs) (map g ys))) (select_by (map P xs) zs)
     = map (\<lambda>(x, y, z). z) (filter (\<lambda>(x, y, z). P x \<and> Q (g y)) (zip xs (zip ys zs)))"
proof (induction xs arbitrary: ys zs)
  case Nil
  show ?case by (simp add: select_by_def)
next
  case (Cons x xs)
  show ?case
  proof (cases ys)
    case Nil
    then show ?thesis by (simp add: select_by_def)
  next
    case ys: (Cons y ys')
    show ?thesis
    proof (cases zs)
      case Nil
      then show ?thesis by (simp add: select_by_def)
    next
      case zs: (Cons z zs')
      from Cons.IH [of ys' zs'] show ?thesis by (simp add: ys zs select_by_def)
    qed
  qed
qed

lemma count_list_cells:
  assumes "inj f"
  shows "count_list (map (map_option f) xs) (Some (f w)) = count_list (somes xs) w"
  using assms by (induction xs) (auto split: option.splits dest: injD)

lemma count_list_cells_other:
  assumes "\<And>w. v \<noteq> f w"
  shows "count_list (map (map_option f) xs) (Some v) = 0"
  using assms by (induction xs) (auto split: option.splits)

lemma most_frequent:
  assumes "inj f" and "s \<in> set (mode_list xs)"
  shows "Some (f s) \<in> set (map (map_option f) xs) \<and>
    (\<forall>v. count_list (map (map_option f) xs) (Some v)
          \<le> count_list (map (map_option f) xs) (Some (f s)))"
proof -
  from assms(2) have s: "s \<in> set (somes xs)"
    and top: "\<And>w. count_list (somes xs) w \<le> count_list (somes xs) s"
    by (simp_all add: mode_list_set)
  from s have "Some s \<in> set xs" by (simp add: set_somes)
  then have "Some (f s) \<in> set (map (map_option f) xs)" by force
  moreover have "count_list (map (map_option f) xs) (Some v)
      \<le> count_list (map (map_option f) xs) (Some (f s))" for v
  proof (cases "\<exists>w. v = f w")
    case True
    then obtain w where "v = f w" by blast
    with top [of w] show ?thesis by (simp add: count_list_cells [OF assms(1)])
  next
    case False
    then have "count_list (map (map_option f) xs) (Some v) = 0"
      by (intro count_list_cells_other) blast
    then show ?thesis by simp
  qed
  ultimately show ?thesis by blast
qed

lemma item0_mode_most_frequent:
  assumes "item0 (mode ids) = Inr (Some s)"
  shows "Some s \<in> set (cells ids) \<and>
    (\<forall>v. count_list (cells ids) (Some v) \<le> count_list (cells ids) (Some s))"
proof (cases ids)
  case (NumCol xs)
  with assms obtain s0 where "s = Num s0" "s0 \<in> set (mode_list xs)"
    by (cases "mode_list xs") (auto simp add: item0_def)
  moreover have "inj Num" by (simp add: inj_def)
  ultimately show ?thesis using most_frequent [of Num s0 xs] NumCol by simp
next
  case (ObjCol xs)
  with assms obtain s0 where "s = Str s0" "s0 \<in> set (mode_list xs)"
    by (cases "mode_list xs") (auto simp add: item0_def)
  moreover have "inj Str" by (simp add: inj_def)
  ultimately show ?thesis using most_frequent [of Str s0 xs] ObjCol by simp
next
  case (DatetimeCol xs)
  with assms obtain s0 where "s = Time s0" "s0 \<in> set (mode_list xs)"
    by (cases "mode_list xs") (auto simp add: item0_def)
  moreover have "inj Time" by (simp add: inj_def)
  ultimately show ?thesis using most_frequent [of Time s0 xs] DatetimeCol by simp
qed

lemma eq_mask_Some: "eq_mask c (Some s) = map (\<lambda>x. x = Some s) (cells c)"
  by (auto simp add: eq_mask_def)

lemma station_years_select:
  "sort (remdups (somes (select_by (map (\<lambda>x. x = Some s) ids)
       (map (map_option (\<lambda>t. of_int (year_of t))) ts)))) = station_years ids ts s"
  by (simp add: station_years_def select_by_map)

lemma station_year_values_select:
  "somes (select_by
      (map (\<lambda>a. a = Some y) (select_by (map (\<lambda>x. x = Some s) ids)
            (map (map_option (\<lambda>t. of_int (year_of t))) ts)))
      (select_by (map (\<lambda>x. x = Some s) ids) tn))
   = station_year_values ids ts tn s y"
  by (simp add: station_year_values_def select_by_nested)

lemma somes_map_Some: "somes (map (\<lambda>x. Some (f x)) ys) = map f ys"
  by (induction ys) auto

lemma group_mask_NumCol: "group_mask (NumCol zs) (Num y) = map (\<lambda>a. a = Some y) zs"
proof -
  have "(map_option Num a = Some (Num y)) = (a = Some y)" for a by (cases a) auto
  then show ?thesis by (simp add: group_mask_def)
qed

lemma cells_group_keys_NumCol:
  "cells (group_keys (NumCol zs)) = map (\<lambda>y. Some (Num y)) (sort (remdups (somes zs)))"
  by simp

lemma groupby_mean_NumCol:
  "groupby_mean lib (NumCol zs) (NumCol vs) =
     Inr (NumCol (map (\<lambda>y. nanmean lib (somes (select_by (map (\<lambda>a. a = Some y) zs) vs)))
                    (sort (remdups (somes zs)))))"
proof -
  have "somes (cells (group_keys (NumCol zs))) = map Num (sort (remdups (somes zs)))"
    unfolding cells_group_keys_NumCol by (rule somes_map_Some)
  then show ?thesis
    by (simp add: group_mask_NumCol o_def del: group_keys.simps cells.simps)
qed

lemma annual_trend_value:
  assumes ids: "map_of d ''NUM_POSTE'' = Some ids"
    and top: "item0 (mode ids) = Inr (Some s)"
    and year: "map_of d ''Year'' = Some (dt_year ts)"
    and tmin: "map_of d ''TN_float'' = Some (NumCol tn)"
  shows "annual_trend lib d =
    Inr (Some s, map (\<lambda>y. Some (Num y)) (station_years (cells ids) ts s),
         map (\<lambda>y. map_option Num (nanmean lib (station_year_values (cells ids) ts tn s y)))
           (station_years (cells ids) ts s))"
proof -
  define m where "m = map (\<lambda>x. x = Some s) (cells ids)"
  define zs :: "rat option list" where "zs = select_by m (map (map_option (\<lambda>t. of_int (year_of t))) ts)"
  define vs where "vs = select_by m tn"
  have g: "groupby (mask_rows (eq_mask ids (Some s)) d) ''Year'' ''TN_float''
      = Inr (NumCol zs, NumCol vs)"
    by (simp add: groupby_def getitem_def map_of_mask_rows year tmin dt_year_def
        eq_mask_Some m_def zs_def vs_def)
  have k: "sort (remdups (somes zs)) = station_years (cells ids) ts s"
    unfolding zs_def m_def by (rule station_years_select)
  have v: "somes (select_by (map (\<lambda>a. a = Some y) zs) vs)
      = station_year_values (cells ids) ts tn s y" for y
    unfolding zs_def vs_def m_def by (rule station_year_values_select)
  show ?thesis
    by (simp add: annual_trend_def getitem_def ids top g groupby_mean_NumCol
        cells_group_keys_NumCol k v o_def
        del: group_keys.simps groupby_mean.simps)
qed

lemma shown_under_found:
  assumes "Header h \<notin> set a" and "\<not> list_ex is_header b" and "c = [] \<or> is_header (hd c)"
  shows "shown_under h (a @ Header h # b @ c) = b"
proof -
  from assms(1) have "dropWhile (\<lambda>x. x \<noteq> Header h) (a @ Header h # b @ c) = Header h # b @ c"
    by (induction a) auto
  moreover from assms(2,3) have "takeWhile (\<lambda>x. \<not> is_header x) (b @ c) = b"
    by (cases c) (auto simp add: takeWhile_append2 list_ex_iff takeWhile_eq_all_conv)
  ultimately show ?thesis by (simp add: shown_under_def)
qed

lemma visualization2_starts: "\<exists>r. fst (visualization2 lib d) = Header Stations_title # r"
  by (simp add: visualization2_def split: sum.splits option.splits)

lemma visualization3_starts: "\<exists>r. fst (visualization3 lib d) = Header Boxplot_title # r"
  by (simp add: visualization3_def split: sum.splits exn.splits prod.splits)

lemma after_trend_starts:
  "\<exists>r. fst (seq (visualization2 lib d) (visualization3 lib d)) = Header Stations_title # r"
  using visualization2_starts [of lib d]
  by (auto simp add: seq_events split: status.splits)

text \<open>A line is drawn by the first section only, when its computation returns.\<close>

lemma visualization1_line:
  assumes "Pyplot (LineFig s xs ys) \<in> set (fst (visualization1 lib d))"
  shows "annual_trend lib d = Inr (s, xs, ys)"
  using assms
  by (auto simp add: visualization1_def split: sum.splits exn.splits prod.splits)

lemma visualization2_no_line: "Pyplot (LineFig s xs ys) \<notin> set (fst (visualization2 lib d))"
  by (auto simp add: visualization2_def scatter_def split: sum.splits option.splits)

lemma visualization3_no_line: "Pyplot (LineFig s xs ys) \<notin> set (fst (visualization3 lib d))"
  by (auto simp add: visualization3_def boxplot_def Let_def
      split: sum.splits exn.splits prod.splits option.splits)

lemma charts_line:
  assumes "Pyplot (LineFig s xs ys) \<in> set (fst (charts lib d))"
  shows "annual_trend lib d = Inr (s, xs, ys)"
proof -
  from assms have "Pyplot (LineFig s xs ys) \<in> set (fst (visualization1 lib d))"
    using visualization2_no_line [of s xs ys lib d] visualization3_no_line [of s xs ys lib d]
    by (auto simp add: charts_def seq_events split: status.splits)
  then show ?thesis by (rule visualization1_line)
qed

lemma map_of_chart_frame:
  assumes "distinct (map fst (rename chart_names df))"
  shows "map_of df ''station_id'' = Some c \<Longrightarrow> map_of (rename chart_names df) ''NUM_POSTE'' = Some c"
    and "map_of df ''station_name'' = Some c \<Longrightarrow> map_of (rename chart_names df) ''NOM_USUEL'' = Some c"
    and "map_of df ''date'' = Some c \<Longrightarrow> map_of (rename chart_names df) ''AAAAMMJJ'' = Some c"
    and "map_of df ''tmin'' = Some c \<Longrightarrow> map_of (rename chart_names df) ''TN_float'' = Some c"
    and "map_of df ''latitude'' = Some c \<Longrightarrow> map_of (rename chart_names df) ''LAT_float'' = Some c"
    and "map_of df ''longitude'' = Some c \<Longrightarrow> map_of (rename chart_names df) ''LON_float'' = Some c"
    and "map_of df ''alti'' = Some c \<Longrightarrow> map_of (rename chart_names df) ''ALTI_float'' = Some c"
  using map_of_rename [OF assms, of "''station_id''" c]
    map_of_rename [OF assms, of "''station_name''" c]
    map_of_rename [OF assms, of "''date''" c]
    map_of_rename [OF assms, of "''tmin''" c]
    map_of_rename [OF assms, of "''latitude''" c]
    map_of_rename [OF assms, of "''longitude''" c]
    map_of_rename [OF assms, of "''alti''" c]
  by (simp_all add: chart_names_def)

lemma plot_visualizations_charts:
  assumes "map_of (rename chart_names df) ''AAAAMMJJ'' = Some (DatetimeCol ts)"
  shows "plot_visualizations lib df =
           charts lib (setitem (rename chart_names df) ''Year'' (dt_year ts))"
  using assms by (simp add: plot_visualizations_def getitem_def)

text \<open>
  C1, as stated, fails: with the \<open>station_id\<close> column and a datetime \<open>date\<close> column but no
  \<open>tmin\<close> column, the first section shows its column error and no line is drawn anywhere
  on the page, whatever the libraries do.
\<close>

theorem first_chart_counterexample:
  "\<not> (\<exists>lib. \<forall>df ids ts. map_of df ''station_id'' = Some ids
          \<and> map_of df ''date'' = Some (DatetimeCol ts) \<longrightarrow>
        (\<exists>s xs ys. Pyplot (LineFig s xs ys) \<in> set (fst (plot_visualizations lib df))))"
proof
  assume "\<exists>lib. \<forall>df ids ts. map_of df ''station_id'' = Some ids
          \<and> map_of df ''date'' = Some (DatetimeCol ts) \<longrightarrow>
        (\<exists>s xs ys. Pyplot (LineFig s xs ys) \<in> set (fst (plot_visualizations lib df)))"
  then obtain lib where a: "\<forall>df ids ts. map_of df ''station_id'' = Some ids
          \<and> map_of df ''date'' = Some (DatetimeCol ts) \<longrightarrow>
        (\<exists>s xs ys. Pyplot (LineFig s xs ys) \<in> set (fst (plot_visualizations lib df)))"
    by blast
  define ts where "ts = [Some 1577836800000000000, Some 1609459200000000000,
                         Some (1577836800000000000 :: int)]"
  have b: "map_of frame_without_temperatures ''station_id'' = Some (NumCol [Some 1, Some 1, Some 2])"
    "map_of frame_without_temperatures ''date'' = Some (DatetimeCol ts)"
    by (simp_all add: frame_without_temperatures_def ts_def)
  have "map_of (rename chart_names frame_without_temperatures) ''AAAAMMJJ'' = Some (DatetimeCol ts)"
    unfolding ts_def by code_simp
  then have p: "plot_visualizations lib frame_without_temperatures =
      charts lib (setitem (rename chart_names frame_without_temperatures) ''Year'' (dt_year ts))"
    by (rule plot_visualizations_charts)
  have e: "annual_trend lib (setitem (rename chart_names frame_without_temperatures) ''Year''
             (dt_year ts)) = Inl (KeyError (Label ''TN_float''))"
    unfolding ts_def by code_simp
  from a b obtain s xs ys
    where "Pyplot (LineFig s xs ys) \<in> set (fst (plot_visualizations lib frame_without_temperatures))"
    by blast
  then have "annual_trend lib (setitem (rename chart_names frame_without_temperatures) ''Year''
               (dt_year ts)) = Inr (s, xs, ys)"
    unfolding p by (rule charts_line)
  with e show False by simp
qed

text \<open>
  C1, amended. For every frame whose labels are still distinct after the renaming, with
  a \<open>station_id\<close> column that holds at least one identifier that is not missing, a
  datetime \<open>date\<close> column and a numeric \<open>tmin\<close> column, the first section shows one
  chart: the line, over the years of the rows of the most frequent station, of the mean
  of the minimum temperatures of that station in each year. The mean is the one the
  library computes in floating point, from the temperatures of the station in that year
  that are not missing, in row order; it is missing when there is none.
\<close>

theorem first_chart_is_annual_mean:
  assumes labels: "distinct (map fst (rename chart_names df))"
    and ids: "map_of df ''station_id'' = Some ids"
    and known: "\<exists>v. Some v \<in> set (cells ids)"
    and date: "map_of df ''date'' = Some (DatetimeCol ts)"
    and tmin: "map_of df ''tmin'' = Some (NumCol tn)"
  shows "\<exists>s. Some s \<in> set (cells ids)
      \<and> (\<forall>v. count_list (cells ids) (Some v) \<le> count_list (cells ids) (Some s))
      \<and> shown_under Trend_title (fst (plot_visualizations lib df)) =
          [Pyplot (LineFig (Some s)
             (map (\<lambda>y. Some (Num y)) (station_years (cells ids) ts s))
             (map (\<lambda>y. map_option Num
                         (nanmean lib (station_year_values (cells ids) ts tn s y)))
                (station_years (cells ids) ts s))),
           Markdown (Trend_caption (Some s))]"
proof -
  define d where "d = setitem (rename chart_names df) ''Year'' (dt_year ts)"
  from item0_mode [OF known] obtain s where s: "item0 (mode ids) = Inr (Some s)" by blast
  have p: "plot_visualizations lib df = charts lib d"
    unfolding d_def using map_of_chart_frame(3) [OF labels date]
    by (rule plot_visualizations_charts)
  have "map_of d ''NUM_POSTE'' = Some ids" "map_of d ''Year'' = Some (dt_year ts)"
    "map_of d ''TN_float'' = Some (NumCol tn)"
    using map_of_chart_frame(1) [OF labels ids] map_of_chart_frame(4) [OF labels tmin]
    by (simp_all add: d_def map_of_setitem)
  then have v1: "visualization1 lib d =
      ([Header Trend_title,
        Pyplot (LineFig (Some s)
             (map (\<lambda>y. Some (Num y)) (station_years (cells ids) ts s))
             (map (\<lambda>y. map_option Num
                         (nanmean lib (station_year_values (cells ids) ts tn s y)))
                (station_years (cells ids) ts s))),
        Markdown (Trend_caption (Some s))], Returned)"
    using s by (simp add: visualization1_def annual_trend_value)
  obtain r where r: "fst (seq (visualization2 lib d) (visualization3 lib d))
      = Header Stations_title # r"
    using after_trend_starts [of lib d] by blast
  have "shown_under Trend_title (fst (charts lib d)) =
      [Pyplot (LineFig (Some s)
             (map (\<lambda>y. Some (Num y)) (station_years (cells ids) ts s))
             (map (\<lambda>y. map_option Num
                         (nanmean lib (station_year_values (cells ids) ts tn s y)))
                (station_years (cells ids) ts s))),
       Markdown (Trend_caption (Some s))]"
    by (simp add: charts_def v1 r shown_under_def)
  with p item0_mode_most_frequent [OF s] show ?thesis by auto
qed

text \<open>On the frame of the winters the most frequent station is station 1, with two
  temperatures in 2020 and one in 2021.\<close>

theorem first_chart_is_annual_mean_witness:
  "distinct (map fst (rename chart_names winters_frame))
   \<and> map_of winters_frame ''station_id'' = Some (NumCol [Some 1, Some 1, Some 1, Some 2])
   \<and> Some (Num 1) \<in> set (cells (NumCol [Some 1, Some 1, Some 1, Some 2]))
   \<and> map_of winters_frame ''date'' =
       Some (DatetimeCol [Some 1577836800000000000, Some 1577923200000000000,
                          Some 1609459200000000000, Some 1577836800000000000])
   \<and> map_of winters_frame ''tmin'' = Some (NumCol [Some (- 1), Some 3, Some 2, Some 5])
   \<and> (\<forall>lib. shown_under Trend_title (fst (plot_visualizations lib winters_frame)) =
          [Pyplot (LineFig (Some (Num 1)) [Some (Num 2020), Some (Num 2021)]
                     [map_option Num (mean64 lib [- 1, 3]), map_option Num (mean64 lib [2])]),
           Markdown (Trend_caption (Some (Num 1)))])"
proof -
  define ids :: "rat option list" where "ids = [Some 1, Some 1, Some 1, Some 2]"
  define ts :: "int option list" where
    "ts = [Some 1577836800000000000, Some 1577923200000000000,
           Some 1609459200000000000, Some 1577836800000000000]"
  define tn :: "rat option list" where "tn = [Some (- 1), Some 3, Some 2, Some 5]"
  have a: "distinct (map fst (rename chart_names winters_frame))" by code_simp
  have b: "map_of winters_frame ''station_id'' = Some (NumCol ids)"
    "map_of winters_frame ''date'' = Some (DatetimeCol ts)"
    "map_of winters_frame ''tmin'' = Some (NumCol tn)"
    by (simp_all add: winters_frame_def ids_def ts_def tn_def)
  have c: "Some (Num 1) \<in> set (cells (NumCol ids))" by (simp add: ids_def)
  then have k: "\<exists>v. Some v \<in> set (cells (NumCol ids))" by blast
  have y: "station_years (cells (NumCol ids)) ts (Num 1) = [2020, 2021]"
    unfolding ids_def ts_def by code_simp
  have v: "station_year_values (cells (NumCol ids)) ts tn (Num 1) 2020 = [- 1, 3]"
    "station_year_values (cells (NumCol ids)) ts tn (Num 1) 2021 = [2]"
    unfolding ids_def ts_def tn_def by code_simp+
  have n: "count_list (cells (NumCol ids)) (Some (Num 1)) = 3"
    "count_list (cells (NumCol ids)) (Some (Num 2)) = 1"
    unfolding ids_def by code_simp+
  have "shown_under Trend_title (fst (plot_visualizations lib winters_frame)) =
          [Pyplot (LineFig (Some (Num 1)) [Some (Num 2020), Some (Num 2021)]
                     [map_option Num (mean64 lib [- 1, 3]), map_option Num (mean64 lib [2])]),
           Markdown (Trend_caption (Some (Num 1)))]" for lib
  proof -
    from first_chart_is_annual_mean [OF a b(1) k b(2) b(3), of lib] obtain s
      where s: "Some s \<in> set (cells (NumCol ids))"
        and top: "\<And>v. count_list (cells (NumCol ids)) (Some v)
                       \<le> count_list (cells (NumCol ids)) (Some s)"
        and page: "shown_under Trend_title (fst (plot_visualizations lib winters_frame)) =
          [Pyplot (LineFig (Some s)
             (map (\<lambda>y. Some (Num y)) (station_years (cells (NumCol ids)) ts s))
             (map (\<lambda>y. map_option Num
                         (nanmean lib (station_year_values (cells (NumCol ids)) ts tn s y)))
                (station_years (cells (NumCol ids)) ts s))),
           Markdown (Trend_caption (Some s))]"
      by blast
    from s have "s = Num 1 \<or> s = Num 2" by (auto simp add: ids_def)
    with top [of "Num 1"] n have "s = Num 1" by auto
    with page show ?thesis by (simp add: y v nanmean_def del: cells.simps)
  qed
  with a b c show ?thesis unfolding ids_def ts_def tn_def by blast
qed

section \<open>What the charts read\<close>















section \<open>Second section: properties\<close>

subsection \<open>Selections\<close>

lemma select_by_Nil [simp]: "select_by m [] = []" "select_by [] xs = []"
  by (simp_all add: select_by_def)

lemma select_by_Cons [simp]:
  "select_by (b # m) (x # xs) = (if b then x # select_by m xs else select_by m xs)"
  by (simp add: select_by_def)

lemma select_by_same: "select_by (map P xs) xs = filter P xs"
  by (induction xs) simp_all

lemma select_by_map2:
  "select_by m (map2 f xs ys) = map2 f (select_by m xs) (select_by m ys)"
proof (induction m arbitrary: xs ys)
  case Nil
  show ?case by simp
next
  case (Cons b m)
  show ?case
  proof (cases xs)
    case Nil
    then show ?thesis by simp
  next
    case xs: (Cons x xs')
    show ?thesis
    proof (cases ys)
      case Nil
      then show ?thesis by (simp add: xs)
    next
      case (Cons y ys')
      with xs Cons.IH [of xs' ys'] show ?thesis by simp
    qed
  qed
qed

lemma select_by_map_f: "select_by m (map f xs) = map f (select_by m xs)"
proof (induction m arbitrary: xs)
  case Nil
  show ?case by simp
next
  case (Cons b m)
  then show ?case by (cases xs) simp_all
qed

lemma length_select_by:
  "length xs = length ys \<Longrightarrow> length (select_by m xs) = length (select_by m ys)"
proof (induction m arbitrary: xs ys)
  case Nil
  show ?case by simp
next
  case (Cons b m)
  then show ?case by (cases xs; cases ys) simp_all
qed

lemma cells_mask_col: "cells (mask_col m c) = select_by m (cells c)"
  by (cases c) (simp_all add: select_by_map_f)

lemma rows_mask_rows: "rows (mask_rows m d) = select_by m (rows d)"
proof (induction d rule: rows.induct)
  case 1
  show ?case by (simp add: mask_rows_def)
next
  case (2 n c)
  show ?case by (simp add: mask_rows_def cells_mask_col select_by_map_f)
next
  case (3 n c v va)
  then show ?case
    by (simp add: mask_rows_def cells_mask_col select_by_map2 del: rows.simps(2))
qed

subsection \<open>Duplicates\<close>

lemma drop_duplicated:
  "select_by (map Not (duplicated seen xs)) xs
     = filter (\<lambda>y. y \<notin> set seen) (rev (remdups (rev xs)))"
proof (induction xs arbitrary: seen)
  case Nil
  show ?case by simp
next
  case (Cons x xs)
  have "remdups (ys @ [x]) = filter (\<lambda>y. y \<noteq> x) (remdups ys) @ [x]" for ys
    by (induction ys) auto
  then have "rev (remdups (rev (x # xs))) = x # filter (\<lambda>y. y \<noteq> x) (rev (remdups (rev xs)))"
    by (simp add: rev_filter)
  with Cons.IH [of "x # seen"] show ?case
    by (auto simp add: conj_commute cong: filter_cong)
qed

lemma rows_drop_duplicates: "rows (drop_duplicates d) = distinct_rows (rows d)"
  by (simp add: drop_duplicates_def rows_mask_rows drop_duplicated distinct_rows_def)

lemma filter_distinct_rows: "filter P (distinct_rows rs) = distinct_rows (filter P rs)"
  by (simp add: distinct_rows_def remdups_filter rev_filter)

subsection \<open>The station table\<close>

lemma aligned_size:
  assumes "aligned d" and "map_of d n = Some c"
  shows "size_col c = nrows d"
proof -
  from assms(2) have "(n, c) \<in> set d" by (rule map_of_SomeD)
  with assms(1) show ?thesis by (auto simp add: aligned_def list_all_iff)
qed

lemma size_mask_col:
  assumes "size_col c = size_col c'"
  shows "size_col (mask_col m c) = size_col (mask_col m c')"
proof -
  from assms have "length (cells c) = length (cells c')" by (simp add: size_col_def)
  then have "length (select_by m (cells c)) = length (select_by m (cells c'))"
    by (rule length_select_by)
  then show ?thesis by (simp add: size_col_def cells_mask_col)
qed

lemma five_columns:
  assumes "size_col c2 = size_col c1" and "size_col c3 = size_col c1"
    and "size_col c4 = size_col c1" and "size_col c5 = size_col c1"
  shows "length (rows [(n1, c1), (n2, c2), (n3, c3), (n4, c4), (n5, c5)]) = size_col c1"
    and "map located (rows [(n1, c1), (n2, c2), (n3, c3), (n4, c4), (n5, c5)])
          = map2 (\<and>) (notna c3) (notna c4)"
proof -
  show l: "length (rows [(n1, c1), (n2, c2), (n3, c3), (n4, c4), (n5, c5)]) = size_col c1"
    using assms by (simp add: size_col_def)
  show "map located (rows [(n1, c1), (n2, c2), (n3, c3), (n4, c4), (n5, c5)])
          = map2 (\<and>) (notna c3) (notna c4)"
  proof (rule nth_equalityI)
    show "length (map located (rows [(n1, c1), (n2, c2), (n3, c3), (n4, c4), (n5, c5)]))
        = length (map2 (\<and>) (notna c3) (notna c4))"
      using assms l by (simp add: size_col_def notna_def)
  next
    fix i
    assume "i < length (map located (rows [(n1, c1), (n2, c2), (n3, c3), (n4, c4), (n5, c5)]))"
    with l have "i < size_col c1" by simp
    with assms show "map located (rows [(n1, c1), (n2, c2), (n3, c3), (n4, c4), (n5, c5)]) ! i
        = map2 (\<and>) (notna c3) (notna c4) ! i"
      by (simp add: size_col_def notna_def located_def)
  qed
qed

lemma five_columns_cells:
  assumes "size_col c2 = size_col c1" and "size_col c3 = size_col c1"
    and "size_col c4 = size_col c1" and "size_col c5 = size_col c1"
  shows "map (\<lambda>r. r ! 2) (rows [(n1, c1), (n2, c2), (n3, c3), (n4, c4), (n5, c5)]) = cells c3"
    and "map (\<lambda>r. r ! 3) (rows [(n1, c1), (n2, c2), (n3, c3), (n4, c4), (n5, c5)]) = cells c4"
    and "map (\<lambda>r. r ! 4) (rows [(n1, c1), (n2, c2), (n3, c3), (n4, c4), (n5, c5)]) = cells c5"
  using assms by (auto intro!: nth_equalityI simp add: size_col_def)

lemma and_all_true: "length xs = k \<Longrightarrow> map2 (\<and>) (replicate k True) xs = xs"
  by (rule nth_equalityI) simp_all

lemma getitems_stations:
  assumes "map_of d ''NUM_POSTE'' = Some ids"
    and "map_of d ''NOM_USUEL'' = Some nm"
    and "map_of d ''LAT_float'' = Some lat"
    and "map_of d ''LON_float'' = Some lon"
    and "map_of d ''ALTI_float'' = Some alt"
  shows "getitems d station_columns =
    Inr [(''NUM_POSTE'', ids), (''NOM_USUEL'', nm), (''LAT_float'', lat),
         (''LON_float'', lon), (''ALTI_float'', alt)]"
  by (simp add: getitems_def station_columns_def assms)

lemma dropna_located:
  assumes "size_col c2 = size_col c1" and "size_col c3 = size_col c1"
    and "size_col c4 = size_col c1" and "size_col c5 = size_col c1"
    and f: "f = [(''NUM_POSTE'', c1), (''NOM_USUEL'', c2), (''LAT_float'', c3),
                 (''LON_float'', c4), (''ALTI_float'', c5)]"
  shows "dropna [''LAT_float'', ''LON_float''] f = Inr (mask_rows (map located (rows f)) f)"
proof -
  have g: "getitems f [''LAT_float'', ''LON_float''] = Inr [(''LAT_float'', c3), (''LON_float'', c4)]"
    by (simp add: getitems_def f)
  have n: "nrows f = size_col c1" by (simp add: f nrows_def)
  have "length (notna c3) = nrows f" using assms(2) n by (simp add: notna_def size_col_def)
  then have "map2 (\<and>) (replicate (nrows f) True) (notna c3) = notna c3"
    by (rule and_all_true)
  moreover have "map located (rows f) = map2 (\<and>) (notna c3) (notna c4)"
    unfolding f using assms(1-4) by (rule five_columns(2))
  ultimately have "fold (\<lambda>(n, c) m. map2 (\<and>) m (notna c))
      [(''LAT_float'', c3), (''LON_float'', c4)] (replicate (nrows f) True)
      = map located (rows f)"
    by simp
  then show ?thesis unfolding dropna_def g by simp
qed


lemma stations_map_rows:
  assumes c: "map_of d ''NUM_POSTE'' = Some ids" "map_of d ''NOM_USUEL'' = Some nm"
      "map_of d ''LAT_float'' = Some lat" "map_of d ''LON_float'' = Some lon"
      "map_of d ''ALTI_float'' = Some alt"
    and sizes: "size_col nm = size_col ids" "size_col lat = size_col ids"
      "size_col lon = size_col ids" "size_col alt = size_col ids"
  shows "\<exists>i n la lg al.
     stations_map d = Inr [(''NUM_POSTE'', i), (''NOM_USUEL'', n), (''LAT_float'', la),
                           (''LON_float'', lg), (''ALTI_float'', al)]
     \<and> rows [(''NUM_POSTE'', i), (''NOM_USUEL'', n), (''LAT_float'', la),
              (''LON_float'', lg), (''ALTI_float'', al)]
        = distinct_rows (filter located
            (rows [(''NUM_POSTE'', ids), (''NOM_USUEL'', nm), (''LAT_float'', lat),
                   (''LON_float'', lon), (''ALTI_float'', alt)]))
     \<and> size_col i = length (rows [(''NUM_POSTE'', i), (''NOM_USUEL'', n), (''LAT_float'', la),
              (''LON_float'', lg), (''ALTI_float'', al)])
     \<and> cells la = map (\<lambda>r. r ! 2) (rows [(''NUM_POSTE'', i), (''NOM_USUEL'', n),
              (''LAT_float'', la), (''LON_float'', lg), (''ALTI_float'', al)])
     \<and> cells lg = map (\<lambda>r. r ! 3) (rows [(''NUM_POSTE'', i), (''NOM_USUEL'', n),
              (''LAT_float'', la), (''LON_float'', lg), (''ALTI_float'', al)])
     \<and> cells al = map (\<lambda>r. r ! 4) (rows [(''NUM_POSTE'', i), (''NOM_USUEL'', n),
              (''LAT_float'', la), (''LON_float'', lg), (''ALTI_float'', al)])"
proof -
  define sel where "sel = [(''NUM_POSTE'', ids), (''NOM_USUEL'', nm), (''LAT_float'', lat),
                   (''LON_float'', lon), (''ALTI_float'', alt)]"
  define m1 where "m1 = map Not (duplicated [] (rows sel))"
  define dd where "dd = [(''NUM_POSTE'', mask_col m1 ids), (''NOM_USUEL'', mask_col m1 nm),
      (''LAT_float'', mask_col m1 lat), (''LON_float'', mask_col m1 lon),
      (''ALTI_float'', mask_col m1 alt)]"
  define m2 where "m2 = map located (rows dd)"
  define i where "i = mask_col m2 (mask_col m1 ids)"
  define n where "n = mask_col m2 (mask_col m1 nm)"
  define la where "la = mask_col m2 (mask_col m1 lat)"
  define lg where "lg = mask_col m2 (mask_col m1 lon)"
  define al where "al = mask_col m2 (mask_col m1 alt)"
  define sm where "sm = [(''NUM_POSTE'', i), (''NOM_USUEL'', n), (''LAT_float'', la),
                           (''LON_float'', lg), (''ALTI_float'', al)]"
  have g: "getitems d station_columns = Inr sel"
    unfolding sel_def using c by (rule getitems_stations)
  have "mask_rows m1 sel = dd" by (simp add: sel_def dd_def mask_rows_def)
  then have dd: "drop_duplicates sel = dd" by (simp add: drop_duplicates_def m1_def)
  note s1 = size_mask_col [OF sizes(1), of m1] size_mask_col [OF sizes(2), of m1]
    size_mask_col [OF sizes(3), of m1] size_mask_col [OF sizes(4), of m1]
  have sm: "mask_rows m2 dd = sm"
    by (simp add: dd_def sm_def mask_rows_def i_def n_def la_def lg_def al_def)
  have "dropna [''LAT_float'', ''LON_float''] dd = Inr (mask_rows (map located (rows dd)) dd)"
    using s1 dd_def by (rule dropna_located)
  then have k: "dropna [''LAT_float'', ''LON_float''] dd = Inr sm"
    by (simp add: m2_def [symmetric] sm)
  have st: "stations_map d = Inr sm" by (simp add: stations_map_def g dd k)
  have "rows sm = select_by m2 (rows dd)"
    unfolding sm [symmetric] by (rule rows_mask_rows)
  also have "\<dots> = filter located (rows dd)"
    unfolding m2_def by (rule select_by_same)
  also have "rows dd = distinct_rows (rows sel)"
    unfolding dd [symmetric] by (rule rows_drop_duplicates)
  finally have r: "rows sm = distinct_rows (filter located (rows sel))"
    by (simp add: filter_distinct_rows)
  have s2: "size_col n = size_col i" "size_col la = size_col i"
    "size_col lg = size_col i" "size_col al = size_col i"
    unfolding i_def n_def la_def lg_def al_def
    by (rule size_mask_col [OF s1(1)] size_mask_col [OF s1(2)] size_mask_col [OF s1(3)]
        size_mask_col [OF s1(4)])+
  have l: "size_col i = length (rows sm)"
    unfolding sm_def using s2 by (rule five_columns(1) [symmetric])
  have x: "cells la = map (\<lambda>r. r ! 2) (rows sm)" "cells lg = map (\<lambda>r. r ! 3) (rows sm)"
    "cells al = map (\<lambda>r. r ! 4) (rows sm)"
    unfolding sm_def using five_columns_cells [OF s2] by simp_all
  from st r l x show ?thesis unfolding sm_def sel_def by (intro exI conjI)
qed

lemma annual_trend_raises:
  assumes "annual_trend lib d = Inl e"
  shows "(\<exists>k. e = KeyError k) \<or> (\<exists>xs. map_of d ''TN_float'' = Some (ObjCol xs))"
proof -
  have g: "groupby_mean lib k c = Inl e \<Longrightarrow> \<exists>xs. c = ObjCol xs" for k c e
    by (cases c) simp_all
  have m: "mask_col m c = ObjCol xs \<Longrightarrow> \<exists>ys. c = ObjCol ys" for m c xs
    by (cases c) simp_all
  from assms show ?thesis
    by (auto simp add: annual_trend_def getitem_def item0_def groupby_def Let_def
        map_of_mask_rows
        split: sum.splits option.splits list.splits prod.splits dest!: g m)
qed

lemma visualization1_returns:
  assumes "\<forall>xs. map_of d ''TN_float'' \<noteq> Some (ObjCol xs)"
  shows "snd (visualization1 lib d) = Returned"
proof (cases "annual_trend lib d")
  case (Inl e)
  with annual_trend_raises [OF Inl] assms obtain k where "annual_trend lib d = Inl (KeyError k)"
    by auto
  then show ?thesis by (simp add: visualization1_def)
next
  case (Inr r)
  then show ?thesis by (simp add: visualization1_def split: prod.splits)
qed

lemma visualization1_headers: "Header Stations_title \<notin> set (fst (visualization1 lib d))"
  by (simp add: visualization1_def split: sum.splits exn.splits prod.splits)

lemma visualization2_value:
  assumes sm: "sm = [(''NUM_POSTE'', i), (''NOM_USUEL'', n), (''LAT_float'', la),
                      (''LON_float'', lg), (''ALTI_float'', al)]"
    and st: "stations_map d = Inr sm"
    and l: "size_col i = length (rows sm)"
  shows "visualization2 lib d =
    (if rows sm = [] then ([Header Stations_title, Warning No_coordinates], Returned)
     else (case st_map lib [(''lat'', la), (''lon'', lg)] of
             Some e \<Rightarrow> ([Header Stations_title, Subheader Map_subtitle], Raised e)
           | None \<Rightarrow>
              (case scatter_plot lib (cells lg) (cells la) (cells al) of
                 Some e \<Rightarrow>
                   ([Header Stations_title, Subheader Map_subtitle,
                     Map_view [(''lat'', la), (''lon'', lg)], Subheader Scatter_subtitle],
                    Raised e)
               | None \<Rightarrow>
                   ([Header Stations_title, Subheader Map_subtitle,
                     Map_view [(''lat'', la), (''lon'', lg)], Subheader Scatter_subtitle,
                     Pyplot (ScatterFig (cells lg) (cells la) (cells al))], Returned))))"
proof -
  have "nrows sm = size_col i" "ncols sm = 5" by (simp_all add: nrows_def ncols_def sm)
  with l have e: "is_empty sm = (rows sm = [])" by (simp add: is_empty_def)
  have m: "map_frame sm = Inr [(''lat'', la), (''lon'', lg)]"
    by (simp add: map_frame_def getitems_def rename_def sm)
  have s: "scatter lib sm =
      (case scatter_plot lib (cells lg) (cells la) (cells al) of
         Some e \<Rightarrow> Inl e
       | None \<Rightarrow> Inr (ScatterFig (cells lg) (cells la) (cells al)))"
    by (simp add: scatter_def getitem_def sm)
  show ?thesis by (simp add: visualization2_def st e m s split: option.splits)
qed

lemma column_of_cells:
  "cells c = map (\<lambda>x. Some (Num x)) xs \<Longrightarrow> xs \<noteq> [] \<Longrightarrow> c = NumCol (map Some xs)"
proof (cases c)
  case (NumCol ys)
  assume "cells c = map (\<lambda>x. Some (Num x)) xs"
  with NumCol have "map (map_option Num) ys = map (map_option Num) (map Some xs)"
    by (simp add: o_def)
  moreover have "inj (map_option Num)" by (rule option.inj_map) (simp add: inj_def)
  ultimately have "ys = map Some xs" by (simp only: inj_map_eq_map)
  with NumCol show ?thesis by simp
next
  case (ObjCol ys)
  assume "cells c = map (\<lambda>x. Some (Num x)) xs" "xs \<noteq> []"
  with ObjCol show ?thesis by (cases xs; cases ys) auto
next
  case (DatetimeCol ys)
  assume "cells c = map (\<lambda>x. Some (Num x)) xs" "xs \<noteq> []"
  with DatetimeCol show ?thesis by (cases xs; cases ys) auto
qed

text \<open>
  C4, as stated, fails: a frame with the five station columns and no \<open>date\<close> column gets
  the date error only, whatever the libraries do. Its station rows are not all without
  coordinates, and no map is shown; had they been, no warning would be shown either.
\<close>

theorem stations_section_counterexample:
  "\<not> (\<exists>lib. \<forall>df ids nm lat lon alt.
        map_of df ''station_id'' = Some ids \<and> map_of df ''station_name'' = Some nm
        \<and> map_of df ''latitude'' = Some lat \<and> map_of df ''longitude'' = Some lon
        \<and> map_of df ''alti'' = Some alt \<longrightarrow>
        (if distinct_rows (filter located
              (rows [(''NUM_POSTE'', ids), (''NOM_USUEL'', nm), (''LAT_float'', lat),
                     (''LON_float'', lon), (''ALTI_float'', alt)])) = []
         then Warning No_coordinates \<in> set (fst (plot_visualizations lib df))
         else (\<exists>m. Map_view m \<in> set (fst (plot_visualizations lib df)))))"
proof
  assume "\<exists>lib. \<forall>df ids nm lat lon alt.
        map_of df ''station_id'' = Some ids \<and> map_of df ''station_name'' = Some nm
        \<and> map_of df ''latitude'' = Some lat \<and> map_of df ''longitude'' = Some lon
        \<and> map_of df ''alti'' = Some alt \<longrightarrow>
        (if distinct_rows (filter located
              (rows [(''NUM_POSTE'', ids), (''NOM_USUEL'', nm), (''LAT_float'', lat),
                     (''LON_float'', lon), (''ALTI_float'', alt)])) = []
         then Warning No_coordinates \<in> set (fst (plot_visualizations lib df))
         else (\<exists>m. Map_view m \<in> set (fst (plot_visualizations lib df))))"
  then obtain lib where a: "\<forall>df ids nm lat lon alt.
        map_of df ''station_id'' = Some ids \<and> map_of df ''station_name'' = Some nm
        \<and> map_of df ''latitude'' = Some lat \<and> map_of df ''longitude'' = Some lon
        \<and> map_of df ''alti'' = Some alt \<longrightarrow>
        (if distinct_rows (filter located
              (rows [(''NUM_POSTE'', ids), (''NOM_USUEL'', nm), (''LAT_float'', lat),
                     (''LON_float'', lon), (''ALTI_float'', alt)])) = []
         then Warning No_coordinates \<in> set (fst (plot_visualizations lib df))
         else (\<exists>m. Map_view m \<in> set (fst (plot_visualizations lib df))))"
    by blast
  have e: "plot_visualizations lib frame_without_dates = ([Error Date_missing], Returned)"
    by code_simp
  have r: "distinct_rows (filter located
          (rows [(''NUM_POSTE'', NumCol [Some 1, Some 1, Some 2]),
                 (''NOM_USUEL'', ObjCol [Some ''A'', Some ''A'', Some ''B'']),
                 (''LAT_float'', NumCol [Some 44, Some 44, Some 45]),
                 (''LON_float'', NumCol [Some 6, Some 6, None]),
                 (''ALTI_float'', NumCol [Some 500, Some 500, Some 900])]))
       = [[Some (Num 1), Some (Str ''A''), Some (Num 44), Some (Num 6), Some (Num 500)]]"
    by code_simp
  have m: "map_of frame_without_dates ''station_id'' = Some (NumCol [Some 1, Some 1, Some 2])
    \<and> map_of frame_without_dates ''station_name'' = Some (ObjCol [Some ''A'', Some ''A'', Some ''B''])
    \<and> map_of frame_without_dates ''latitude'' = Some (NumCol [Some 44, Some 44, Some 45])
    \<and> map_of frame_without_dates ''longitude'' = Some (NumCol [Some 6, Some 6, None])
    \<and> map_of frame_without_dates ''alti'' = Some (NumCol [Some 500, Some 500, Some 900])"
    by (simp add: frame_without_dates_def)
  from a [rule_format, OF m] show False unfolding r e by simp
qed

text \<open>
  C4, amended. For every frame whose labels are still distinct after the renaming and
  whose columns have the same length, with a datetime \<open>date\<close> column, the five station
  columns, and a minimum temperature column that, if there is one, is not a column of
  strings (so that the first section ends without an exception of its own): the second
  section works on the distinct rows of the station columns that have a latitude and a
  longitude. When there is none it shows the warning and neither map nor scatter.
  Otherwise it hands their latitudes and longitudes to the map and, when the map
  returns, their longitudes, latitudes and altitudes to the scatter; the map is shown
  when the call of the map returns and the scatter when the plotting returns, and what
  one of them raises (as they do on coordinates that are not numbers) is raised by
  \<open>plot_visualizations\<close>.
\<close>

theorem stations_section_shows_located_stations:
  assumes labels: "distinct (map fst (rename chart_names df))"
    and rect: "aligned df"
    and date: "map_of df ''date'' = Some (DatetimeCol ts)"
    and cols: "map_of df ''station_id'' = Some ids" "map_of df ''station_name'' = Some nm"
      "map_of df ''latitude'' = Some lat" "map_of df ''longitude'' = Some lon"
      "map_of df ''alti'' = Some alt"
    and trend: "\<forall>xs. map_of (rename chart_names df) ''TN_float'' \<noteq> Some (ObjCol xs)"
  shows "\<exists>la lg al.
      cells la = map (\<lambda>r. r ! 2) (distinct_rows (filter located
          (rows [(''NUM_POSTE'', ids), (''NOM_USUEL'', nm), (''LAT_float'', lat),
                 (''LON_float'', lon), (''ALTI_float'', alt)])))
    \<and> cells lg = map (\<lambda>r. r ! 3) (distinct_rows (filter located
          (rows [(''NUM_POSTE'', ids), (''NOM_USUEL'', nm), (''LAT_float'', lat),
                 (''LON_float'', lon), (''ALTI_float'', alt)])))
    \<and> cells al = map (\<lambda>r. r ! 4) (distinct_rows (filter located
          (rows [(''NUM_POSTE'', ids), (''NOM_USUEL'', nm), (''LAT_float'', lat),
                 (''LON_float'', lon), (''ALTI_float'', alt)])))
    \<and> shown_under Stations_title (fst (plot_visualizations lib df)) =
        (if distinct_rows (filter located
              (rows [(''NUM_POSTE'', ids), (''NOM_USUEL'', nm), (''LAT_float'', lat),
                     (''LON_float'', lon), (''ALTI_float'', alt)])) = []
         then [Warning No_coordinates]
         else Subheader Map_subtitle #
              (case st_map lib [(''lat'', la), (''lon'', lg)] of
                 Some e \<Rightarrow> []
               | None \<Rightarrow>
                   Map_view [(''lat'', la), (''lon'', lg)] # Subheader Scatter_subtitle #
                   (case scatter_plot lib (cells lg) (cells la) (cells al) of
                      Some e \<Rightarrow> []
                    | None \<Rightarrow> [Pyplot (ScatterFig (cells lg) (cells la) (cells al))])))
    \<and> (\<forall>e. distinct_rows (filter located
              (rows [(''NUM_POSTE'', ids), (''NOM_USUEL'', nm), (''LAT_float'', lat),
                     (''LON_float'', lon), (''ALTI_float'', alt)])) \<noteq> []
            \<and> (st_map lib [(''lat'', la), (''lon'', lg)] = Some e
                \<or> st_map lib [(''lat'', la), (''lon'', lg)] = None
                  \<and> scatter_plot lib (cells lg) (cells la) (cells al) = Some e)
          \<longrightarrow> snd (plot_visualizations lib df) = Raised e)"
proof -
  define d where "d = setitem (rename chart_names df) ''Year'' (dt_year ts)"
  define sel where "sel = [(''NUM_POSTE'', ids), (''NOM_USUEL'', nm), (''LAT_float'', lat),
                 (''LON_float'', lon), (''ALTI_float'', alt)]"
  have p: "plot_visualizations lib df = charts lib d"
    unfolding d_def using map_of_chart_frame(3) [OF labels date]
    by (rule plot_visualizations_charts)
  have c: "map_of d ''NUM_POSTE'' = Some ids" "map_of d ''NOM_USUEL'' = Some nm"
      "map_of d ''LAT_float'' = Some lat" "map_of d ''LON_float'' = Some lon"
      "map_of d ''ALTI_float'' = Some alt"
    using map_of_chart_frame(1) [OF labels cols(1)] map_of_chart_frame(2) [OF labels cols(2)]
      map_of_chart_frame(5) [OF labels cols(3)] map_of_chart_frame(6) [OF labels cols(4)]
      map_of_chart_frame(7) [OF labels cols(5)]
    by (simp_all add: d_def map_of_setitem)
  have sizes: "size_col nm = size_col ids" "size_col lat = size_col ids"
      "size_col lon = size_col ids" "size_col alt = size_col ids"
    using aligned_size [OF rect cols(1)] aligned_size [OF rect cols(2)]
      aligned_size [OF rect cols(3)] aligned_size [OF rect cols(4)]
      aligned_size [OF rect cols(5)]
    by simp_all
  from stations_map_rows [OF c sizes] obtain i n la lg al
    where st: "stations_map d = Inr [(''NUM_POSTE'', i), (''NOM_USUEL'', n),
          (''LAT_float'', la), (''LON_float'', lg), (''ALTI_float'', al)]"
      and r: "rows [(''NUM_POSTE'', i), (''NOM_USUEL'', n), (''LAT_float'', la),
              (''LON_float'', lg), (''ALTI_float'', al)] = distinct_rows (filter located (rows sel))"
      and l: "size_col i = length (rows [(''NUM_POSTE'', i), (''NOM_USUEL'', n),
              (''LAT_float'', la), (''LON_float'', lg), (''ALTI_float'', al)])"
      and x: "cells la = map (\<lambda>r. r ! 2) (rows [(''NUM_POSTE'', i), (''NOM_USUEL'', n),
              (''LAT_float'', la), (''LON_float'', lg), (''ALTI_float'', al)])"
        "cells lg = map (\<lambda>r. r ! 3) (rows [(''NUM_POSTE'', i), (''NOM_USUEL'', n),
              (''LAT_float'', la), (''LON_float'', lg), (''ALTI_float'', al)])"
        "cells al = map (\<lambda>r. r ! 4) (rows [(''NUM_POSTE'', i), (''NOM_USUEL'', n),
              (''LAT_float'', la), (''LON_float'', lg), (''ALTI_float'', al)])"
    unfolding sel_def by blast
  define R where "R = distinct_rows (filter located (rows sel))"
  define mp where "mp = st_map lib [(''lat'', la), (''lon'', lg)]"
  define sc where "sc = scatter_plot lib (cells lg) (cells la) (cells al)"
  define b where "b = (if R = [] then [Warning No_coordinates]
         else Subheader Map_subtitle #
              (case mp of
                 Some e \<Rightarrow> []
               | None \<Rightarrow>
                   Map_view [(''lat'', la), (''lon'', lg)] # Subheader Scatter_subtitle #
                   (case sc of
                      Some e \<Rightarrow> []
                    | None \<Rightarrow> [Pyplot (ScatterFig (cells lg) (cells la) (cells al))])))"
  define s2 where "s2 = (if R = [] then Returned
         else (case mp of Some e \<Rightarrow> Raised e
               | None \<Rightarrow> (case sc of Some e \<Rightarrow> Raised e | None \<Rightarrow> Returned)))"
  have v2: "visualization2 lib d = (Header Stations_title # b, s2)"
    unfolding visualization2_value [OF refl st l] r
    by (simp add: b_def s2_def R_def mp_def sc_def split: option.splits)
  have "map_of d ''TN_float'' = map_of (rename chart_names df) ''TN_float''"
    by (simp add: d_def map_of_setitem)
  with trend have v1: "snd (visualization1 lib d) = Returned"
    by (intro visualization1_returns) simp
  obtain t where v3: "fst (visualization3 lib d) = Header Boxplot_title # t"
    using visualization3_starts [of lib d] by blast
  define c3 where "c3 = (case s2 of Returned \<Rightarrow> fst (visualization3 lib d) | Raised e \<Rightarrow> [])"
  have nb: "\<not> list_ex is_header b" by (simp add: b_def split: option.splits)
  have hc: "c3 = [] \<or> is_header (hd c3)" by (simp add: c3_def v3 split: status.splits)
  have "fst (charts lib d) = fst (visualization1 lib d) @ Header Stations_title # b @ c3"
    by (simp add: charts_def seq_events v1 v2 c3_def split: status.splits)
  then have "shown_under Stations_title (fst (charts lib d)) = b"
    using shown_under_found [OF visualization1_headers [of lib d] nb hc] by simp
  with p have q: "shown_under Stations_title (fst (plot_visualizations lib df)) = b" by simp
  have "snd (charts lib d) = (case s2 of Returned \<Rightarrow> snd (visualization3 lib d)
                               | Raised e \<Rightarrow> Raised e)"
    by (simp add: charts_def seq_status v1 v2)
  with p have u: "\<forall>e. R \<noteq> [] \<and> (mp = Some e \<or> mp = None \<and> sc = Some e)
      \<longrightarrow> snd (plot_visualizations lib df) = Raised e"
    by (auto simp add: s2_def)
  note y = x [unfolded r sel_def]
  show ?thesis
    using y q [unfolded b_def R_def mp_def sc_def sel_def] u [unfolded R_def mp_def sc_def sel_def]
    by (intro exI conjI)
qed

theorem stations_section_shows_located_stations_witness:
  "distinct (map fst (rename chart_names sample_frame))
   \<and> aligned sample_frame
   \<and> map_of (rename chart_names sample_frame) ''TN_float'' = Some (NumCol [Some (- 1), Some 3, Some 2])
   \<and> distinct_rows (filter located
          (rows [(''NUM_POSTE'', NumCol [Some 1, Some 1, Some 2]),
                 (''NOM_USUEL'', ObjCol [Some ''A'', Some ''A'', Some ''B'']),
                 (''LAT_float'', NumCol [Some 44, Some 44, Some 45]),
                 (''LON_float'', NumCol [Some 6, Some 6, None]),
                 (''ALTI_float'', NumCol [Some 500, Some 500, Some 900])]))
       = [[Some (Num 1), Some (Str ''A''), Some (Num 44), Some (Num 6), Some (Num 500)]]
   \<and> (\<forall>lib. shown_under Stations_title (fst (plot_visualizations lib sample_frame)) =
          Subheader Map_subtitle #
          (case st_map lib [(''lat'', NumCol [Some 44]), (''lon'', NumCol [Some 6])] of
             Some e \<Rightarrow> []
           | None \<Rightarrow>
               Map_view [(''lat'', NumCol [Some 44]), (''lon'', NumCol [Some 6])]
               # Subheader Scatter_subtitle #
               (case scatter_plot lib [Some (Num 6)] [Some (Num 44)] [Some (Num 500)] of
                  Some e \<Rightarrow> []
                | None \<Rightarrow> [Pyplot (ScatterFig [Some (Num 6)] [Some (Num 44)]
                                       [Some (Num 500)])])))
   \<and> (\<forall>lib. shown_under Stations_title (fst (plot_visualizations lib frame_without_longitudes))
               = [Warning No_coordinates])"
proof -
  define ts where "ts = [Some 1577836800000000000, Some 1609459200000000000,
                         Some (1577836800000000000 :: int)]"
  have a: "distinct (map fst (rename chart_names sample_frame))" by code_simp
  have b: "aligned sample_frame" by code_simp
  have c: "map_of (rename chart_names sample_frame) ''TN_float''
      = Some (NumCol [Some (- 1), Some 3, Some 2])"
    by code_simp
  then have t: "\<forall>xs. map_of (rename chart_names sample_frame) ''TN_float'' \<noteq> Some (ObjCol xs)"
    by simp
  have m: "map_of sample_frame ''date'' = Some (DatetimeCol ts)"
    "map_of sample_frame ''station_id'' = Some (NumCol [Some 1, Some 1, Some 2])"
    "map_of sample_frame ''station_name'' = Some (ObjCol [Some ''A'', Some ''A'', Some ''B''])"
    "map_of sample_frame ''latitude'' = Some (NumCol [Some 44, Some 44, Some 45])"
    "map_of sample_frame ''longitude'' = Some (NumCol [Some 6, Some 6, None])"
    "map_of sample_frame ''alti'' = Some (NumCol [Some 500, Some 500, Some 900])"
    by (simp_all add: sample_frame_def ts_def)
  have r: "distinct_rows (filter located
          (rows [(''NUM_POSTE'', NumCol [Some 1, Some 1, Some 2]),
                 (''NOM_USUEL'', ObjCol [Some ''A'', Some ''A'', Some ''B'']),
                 (''LAT_float'', NumCol [Some 44, Some 44, Some 45]),
                 (''LON_float'', NumCol [Some 6, Some 6, None]),
                 (''ALTI_float'', NumCol [Some 500, Some 500, Some 900])]))
       = [[Some (Num 1), Some (Str ''A''), Some (Num 44), Some (Num 6), Some (Num 500)]]"
    by code_simp
  have a': "distinct (map fst (rename chart_names frame_without_longitudes))" by code_simp
  have b': "aligned frame_without_longitudes" by code_simp
  have "map_of (rename chart_names frame_without_longitudes) ''TN_float''
      = Some (NumCol [Some (- 1), Some 3, Some 2])"
    by code_simp
  then have t': "\<forall>xs. map_of (rename chart_names frame_without_longitudes) ''TN_float''
      \<noteq> Some (ObjCol xs)"
    by simp
  have m': "map_of frame_without_longitudes ''date'' = Some (DatetimeCol ts)"
    "map_of frame_without_longitudes ''station_id'' = Some (NumCol [Some 1, Some 1, Some 2])"
    "map_of frame_without_longitudes ''station_name''
       = Some (ObjCol [Some ''A'', Some ''A'', Some ''B''])"
    "map_of frame_without_longitudes ''latitude'' = Some (NumCol [Some 44, Some 44, Some 45])"
    "map_of frame_without_longitudes ''longitude'' = Some (NumCol [None, None, None])"
    "map_of frame_without_longitudes ''alti'' = Some (NumCol [Some 500, Some 500, Some 900])"
    by (simp_all add: frame_without_longitudes_def ts_def)
  have r': "distinct_rows (filter located
          (rows [(''NUM_POSTE'', NumCol [Some 1, Some 1, Some 2]),
                 (''NOM_USUEL'', ObjCol [Some ''A'', Some ''A'', Some ''B'']),
                 (''LAT_float'', NumCol [Some 44, Some 44, Some 45]),
                 (''LON_float'', NumCol [None, None, None]),
                 (''ALTI_float'', NumCol [Some 500, Some 500, Some 900])])) = []"
    by code_simp
  have k: "cells x = [Some (Num v)] \<Longrightarrow> x = NumCol [Some v]" for x v
    using column_of_cells [of x "[v]"] by simp
  have f: "shown_under Stations_title (fst (plot_visualizations lib sample_frame)) =
          Subheader Map_subtitle #
          (case st_map lib [(''lat'', NumCol [Some 44]), (''lon'', NumCol [Some 6])] of
             Some e \<Rightarrow> []
           | None \<Rightarrow>
               Map_view [(''lat'', NumCol [Some 44]), (''lon'', NumCol [Some 6])]
               # Subheader Scatter_subtitle #
               (case scatter_plot lib [Some (Num 6)] [Some (Num 44)] [Some (Num 500)] of
                  Some e \<Rightarrow> []
                | None \<Rightarrow> [Pyplot (ScatterFig [Some (Num 6)] [Some (Num 44)]
                                       [Some (Num 500)])]))" for lib
  proof -
    from stations_section_shows_located_stations [OF a b m t, of lib, unfolded r]
    obtain la lg al where "cells la = [Some (Num 44)]" "cells lg = [Some (Num 6)]"
      "cells al = [Some (Num 500)]"
      and s: "shown_under Stations_title (fst (plot_visualizations lib sample_frame)) =
          Subheader Map_subtitle #
          (case st_map lib [(''lat'', la), (''lon'', lg)] of
             Some e \<Rightarrow> []
           | None \<Rightarrow>
               Map_view [(''lat'', la), (''lon'', lg)] # Subheader Scatter_subtitle #
               (case scatter_plot lib (cells lg) (cells la) (cells al) of
                  Some e \<Rightarrow> []
                | None \<Rightarrow> [Pyplot (ScatterFig (cells lg) (cells la) (cells al))]))"
      by auto
    then have eqs: "la = NumCol [Some 44]" "lg = NumCol [Some 6]" "al = NumCol [Some 500]"
      by (simp_all add: k)
    from s show ?thesis unfolding eqs by (simp cong: option.case_cong)
  qed
  have g: "shown_under Stations_title (fst (plot_visualizations lib frame_without_longitudes))
      = [Warning No_coordinates]" for lib
    using stations_section_shows_located_stations [OF a' b' m' t', of lib, unfolded r']
    by auto
  from a b c r f g show ?thesis by blast
qed

end
